theory Spec2Isabelle
  imports Complex_Main
begin

section \<open>Python values used by convert-gptneox-hf-to-gguf.py\<close>

text \<open>
  A Python \<open>str\<close> is modelled by its UTF-8 bytes, so \<open>item.encode("utf-8")\<close> is the
  identity and \<open>startswith\<close>/\<open>endswith\<close> on \<open>bytes\<close> and on \<open>str\<close> coincide for the
  ASCII patterns the script uses. Python integers are \<open>int\<close>, lengths and counts \<open>nat\<close>.
\<close>

definition startswith :: "string \<Rightarrow> string \<Rightarrow> bool" where
  "startswith s p = (take (length p) s = p)"

definition endswith :: "string \<Rightarrow> string \<Rightarrow> bool" where
  "endswith s x = (length x \<le> length s \<and> drop (length s - length x) s = x)"

definition digit_char :: "nat \<Rightarrow> char" where
  "digit_char d = ''0123456789'' ! d"

text \<open>\<open>str(n)\<close> for a non-negative integer: its decimal digits.\<close>

fun str_nat :: "nat \<Rightarrow> string" where
  "str_nat n = (if n < 10 then [digit_char n] else str_nat (n div 10) @ [digit_char (n mod 10)])"

declare str_nat.simps [simp del]

definition str_int :: "int \<Rightarrow> string" where
  "str_int i = (if i < 0 then CHR ''-'' # str_nat (nat (- i)) else str_nat (nat i))"

fun join_str :: "string \<Rightarrow> string list \<Rightarrow> string" where
  "join_str sep [] = []"
| "join_str sep [x] = x"
| "join_str sep (x # y # ys) = x @ sep @ join_str sep (y # ys)"

text \<open>\<open>str(xs)\<close> for a list of integers, as an f-string renders \<open>{actual_ids}\<close>.\<close>

definition str_int_list :: "int list \<Rightarrow> string" where
  "str_int_list xs = ''['' @ join_str '', '' (map str_int xs) @ '']''"

text \<open>The format specification \<open>{n:05}\<close>: decimal, padded with zeros on the left to width 5.\<close>

definition format_05 :: "nat \<Rightarrow> string" where
  "format_05 n = replicate (5 - length (str_nat n)) CHR ''0'' @ str_nat n"

definition apostrophe :: char where
  "apostrophe = CHR 0x27"

subsection \<open>Dictionaries\<close>

text \<open>
  A \<open>dict\<close> keeps insertion order, so it is the list of its items. \<open>py_dict\<close> is
  \<open>dict(pairs)\<close>: a key met again keeps its position and takes the later value.
\<close>

type_synonym ('k, 'v) pydict = "('k \<times> 'v) list"

fun dict_setitem :: "('k, 'v) pydict \<Rightarrow> 'k \<Rightarrow> 'v \<Rightarrow> ('k, 'v) pydict" where
  "dict_setitem [] k v = [(k, v)]"
| "dict_setitem ((k', v') # d) k v =
     (if k' = k then (k', v) # d else (k', v') # dict_setitem d k v)"

definition py_dict :: "('k \<times> 'v) list \<Rightarrow> ('k, 'v) pydict" where
  "py_dict kvs = foldl (\<lambda>d (k, v). dict_setitem d k v) [] kvs"

definition dict_contains :: "'k \<Rightarrow> ('k, 'v) pydict \<Rightarrow> bool" where
  "dict_contains k d = (k \<in> set (map fst d))"

section \<open>class BpeVocab\<close>

datatype error = PyException string

datatype TokenType = NORMAL | UNKNOWN | CONTROL | USER_DEFINED | UNUSED | BYTE

text \<open>
  The fields \<open>__init__\<close> sets, the two stored paths apart. The files the constructor
  reads are its arguments here, already decoded:
  \<^item> \<open>vocab\<close>: \<open>["model"]["vocab"]\<close> of the file \<open>fname_tokenizer\<close>;
  \<^item> \<open>fname_added_tokens\<close>: \<open>None\<close>, or the dictionary read from that file;
  \<^item> \<open>tokenizer_json\<close>: \<open>None\<close> when \<open>tokenizer.json\<close> beside \<open>fname_tokenizer\<close> is not
    a file; else its \<open>added_tokens\<close> entry (\<open>None\<close> when the key is absent), each item
    given as the pair \<open>(item['content'], item['id'])\<close>.
\<close>

record BpeVocab =
  bpe_tokenizer :: "(string, int) pydict"
  added_tokens_list :: "string list"
  vocab_size_base :: nat
  vocab_size :: nat

text \<open>Lines 28 to 43: where the added tokens come from.\<close>

definition load_added_tokens ::
  "(string, int) pydict \<Rightarrow> (string, int) pydict option \<Rightarrow> (string \<times> int) list option option
     \<Rightarrow> (string, int) pydict" where
  "load_added_tokens vocab fname_added_tokens tokenizer_json =
     (case fname_added_tokens of
        Some added \<Rightarrow> added
      | None \<Rightarrow>
          (case tokenizer_json of
             None \<Rightarrow> []
           | Some tj \<Rightarrow>
               py_dict (filter (\<lambda>(content, idx). \<not> dict_contains content vocab)
                          (case tj of None \<Rightarrow> [] | Some items \<Rightarrow> items))))"

text \<open>The message of the exception of line 50.\<close>

definition sequential_message :: "nat \<Rightarrow> int list \<Rightarrow> string" where
  "sequential_message size_base actual_ids =
     (let expected_end_id = int size_base + int (length actual_ids) - 1
      in ''Expected the '' @ str_nat (length actual_ids) @
         '' added token ID(s) to be sequential in the range '' @ str_nat size_base @
         '' - '' @ str_int expected_end_id @ ''; got '' @ str_int_list actual_ids)"

definition BpeVocab_init ::
  "(string, int) pydict \<Rightarrow> (string, int) pydict option \<Rightarrow> (string \<times> int) list option option
     \<Rightarrow> error + BpeVocab" where
  "BpeVocab_init vocab fname_added_tokens tokenizer_json =
     (let added = load_added_tokens vocab fname_added_tokens tokenizer_json;
          size_base = length vocab;
          expected_ids = map int [size_base ..< size_base + length added];
          actual_ids = sort (map snd added)
      in if expected_ids \<noteq> actual_ids
         then Inl (PyException (sequential_message size_base actual_ids))
         else
           (let items = sort_key snd added;
                added_list = map fst items
            in Inr \<lparr>bpe_tokenizer = vocab,
                    added_tokens_list = added_list,
                    vocab_size_base = size_base,
                    vocab_size = size_base + length added_list\<rparr>))"

text \<open>Lines 69 to 79: the type of the base token met at index \<open>i\<close>.\<close>

definition bpe_toktype :: "nat \<Rightarrow> string \<Rightarrow> TokenType" where
  "bpe_toktype i text =
     (if i \<le> 258 \<and> startswith text ''<'' \<and> endswith text ''>'' then
        (if i = 0 \<and> text = ''<unk>'' then UNKNOWN
         else if i = 1 \<or> i = 2 then CONTROL
         else if i \<ge> 3 \<and> startswith text ''<0x'' then BYTE
         else NORMAL)
      else NORMAL)"

text \<open>
  \<open>bpe_tokens\<close> walks the keys of the base vocabulary in the order of the dictionary;
  the ids stored under the keys are not read. (\<open>byte_encoder\<close> and \<open>byte_decoder\<close> are
  computed by the source and never used.)
\<close>

definition bpe_tokens :: "BpeVocab \<Rightarrow> (string \<times> real \<times> TokenType) list" where
  "bpe_tokens self =
     map (\<lambda>(i, item). (item, 0, bpe_toktype i item))
       (enumerate 0 (map fst (bpe_tokenizer self)))"

definition added_tokens :: "BpeVocab \<Rightarrow> (string \<times> real \<times> TokenType) list" where
  "added_tokens self = map (\<lambda>text. (text, - 1000, USER_DEFINED)) (added_tokens_list self)"

definition all_tokens :: "BpeVocab \<Rightarrow> (string \<times> real \<times> TokenType) list" where
  "all_tokens self = bpe_tokens self @ added_tokens self"

section \<open>The tensor loop\<close>

datatype dtype =
  Float16 | Float32 | Float64 | BFloat16 | Int8 | Int16 | Int32 | Int64 | UInt8 | Bool8

definition dtype_name :: "dtype \<Rightarrow> string" where
  "dtype_name d =
     (case d of
        Float16 \<Rightarrow> ''float16'' | Float32 \<Rightarrow> ''float32'' | Float64 \<Rightarrow> ''float64''
      | BFloat16 \<Rightarrow> ''bfloat16'' | Int8 \<Rightarrow> ''int8'' | Int16 \<Rightarrow> ''int16''
      | Int32 \<Rightarrow> ''int32'' | Int64 \<Rightarrow> ''int64'' | UInt8 \<Rightarrow> ''uint8'' | Bool8 \<Rightarrow> ''bool'')"

record tensor =
  t_dtype :: dtype
  t_shape :: "nat list"

text \<open>What a run does that can be seen from outside, in order.\<close>

datatype event =
    Stdout string
  | Stderr string
  | TorchLoad string
  | AddTokenList "string list"
  | AddTokenScores "real list"
  | AddTokenTypes "TokenType list"
  | AddTensor string dtype "nat list"
  | WriteTensors

text \<open>Reading a trace: the files loaded, the tensors passed to the writer, the lines printed.\<close>

fun loads :: "event list \<Rightarrow> string list" where
  "loads [] = []"
| "loads (TorchLoad path # evs) = path # loads evs"
| "loads (ev # evs) = loads evs"

fun tensors_added :: "event list \<Rightarrow> (string \<times> dtype \<times> nat list) list" where
  "tensors_added [] = []"
| "tensors_added (AddTensor name d shape # evs) = (name, d, shape) # tensors_added evs"
| "tensors_added (ev # evs) = tensors_added evs"

fun stdout_lines :: "event list \<Rightarrow> string list" where
  "stdout_lines [] = []"
| "stdout_lines (Stdout line # evs) = line # stdout_lines evs"
| "stdout_lines (ev # evs) = stdout_lines evs"

fun stderr_lines :: "event list \<Rightarrow> string list" where
  "stderr_lines [] = []"
| "stderr_lines (Stderr line # evs) = line # stderr_lines evs"
| "stderr_lines (ev # evs) = stderr_lines evs"

text \<open>
  How a run ends: it reaches the last line, it calls \<open>sys.exit\<close> (with or without an
  argument), or an exception is not caught.
\<close>

datatype outcome = Finished | SysExit "int option" | Uncaught error

text \<open>
  The status the interpreter exits with: 0 at the end of the script and for
  \<open>sys.exit()\<close>, whose argument defaults to \<open>None\<close>; the argument for \<open>sys.exit(n)\<close>; 1
  after a traceback.
\<close>

fun exit_status :: "outcome \<Rightarrow> int" where
  "exit_status Finished = 0"
| "exit_status (SysExit None) = 0"
| "exit_status (SysExit (Some n)) = n"
| "exit_status (Uncaught e) = 1"

text \<open>Lines 280 and 281.\<close>

definition to_supported :: "dtype \<Rightarrow> dtype" where
  "to_supported d = (if d \<noteq> Float16 \<and> d \<noteq> Float32 then Float32 else d)"

text \<open>\<open>data.squeeze()\<close>: every dimension of size 1 is removed.\<close>

definition squeeze :: "nat list \<Rightarrow> nat list" where
  "squeeze shape = filter (\<lambda>d. d \<noteq> 1) shape"

text \<open>
  Lines 292 to 304: the three conversions, each tested on \<open>data_dtype\<close>, the dtype
  read before any of them.
\<close>

definition astype_policy :: "int \<Rightarrow> dtype \<Rightarrow> nat \<Rightarrow> string \<Rightarrow> dtype" where
  "astype_policy ftype data_dtype n_dims name =
     (let data0 = data_dtype;
          data1 = (if ftype = 0 \<and> data_dtype = Float16 then Float32 else data0);
          data2 = (if ftype = 1 \<and> data_dtype = Float16 \<and> n_dims = 1 then Float32 else data1);
          data3 = (if ftype = 1 \<and> data_dtype = Float32 \<and> endswith name ''.weight'' \<and> n_dims = 2
                   then Float16 else data2)
      in data3)"

text \<open>
  The body of the loop over the tensors of one part (lines 271 to 308), for the tensor
  \<open>data\<close> stored under \<open>name\<close>. \<open>get_name\<close> is \<open>tensor_map.get_name\<close> with the suffixes
  \<open>.weight\<close> and \<open>.bias\<close>; the table itself belongs to the gguf package.
\<close>

definition not_needed :: "string \<Rightarrow> bool" where
  "not_needed name =
     (endswith name ''.attention.masked_bias'' \<or> endswith name ''.attention.bias''
      \<or> endswith name ''.attention.rotary_emb.inv_freq'')"

definition convert_tensor ::
  "int \<Rightarrow> (string \<Rightarrow> string option) \<Rightarrow> string \<Rightarrow> tensor \<Rightarrow> event list \<times> outcome option" where
  "convert_tensor ftype get_name name data =
     (if not_needed name
      then ([], None)
      else
        (let old_dtype = t_dtype data;
             data_dtype = to_supported (t_dtype data);
             shape = squeeze (t_shape data)
         in case get_name name of
              None \<Rightarrow>
                ([Stdout (''Can not map tensor '' @ [apostrophe] @ name @ [apostrophe])],
                 Some (SysExit None))
            | Some new_name \<Rightarrow>
                (let n_dims = length shape;
                     out = astype_policy ftype data_dtype n_dims name
                 in ([Stdout (new_name @ '', n_dims = '' @ str_nat n_dims @ '', torch.'' @
                        dtype_name old_dtype @ '' --> '' @ dtype_name out),
                      AddTensor new_name out shape],
                     None))))"

fun convert_part ::
  "int \<Rightarrow> (string \<Rightarrow> string option) \<Rightarrow> (string \<times> tensor) list \<Rightarrow> event list \<times> outcome option" where
  "convert_part ftype get_name [] = ([], None)"
| "convert_part ftype get_name ((name, data) # rest) =
     (case convert_tensor ftype get_name name data of
        (evs, Some stop) \<Rightarrow> (evs, Some stop)
      | (evs, None) \<Rightarrow>
          (case convert_part ftype get_name rest of (evs', r) \<Rightarrow> (evs @ evs', r)))"

text \<open>
  The loop over the parts (lines 264 to 308). \<open>torch_load\<close> is the checkpoint reader:
  the tensors of the file at a path, in the order of \<open>model_part.keys()\<close>.
\<close>

fun convert_parts ::
  "bool \<Rightarrow> int \<Rightarrow> (string \<Rightarrow> string option) \<Rightarrow> (string \<Rightarrow> (string \<times> tensor) list) \<Rightarrow> string
     \<Rightarrow> string list \<Rightarrow> event list \<times> outcome option" where
  "convert_parts vocab_only ftype get_name torch_load dir_model [] = ([], None)"
| "convert_parts vocab_only ftype get_name torch_load dir_model (part_name # rest) =
     (if vocab_only then ([], None)
      else
        (let path = dir_model @ ''/'' @ part_name;
             head = [Stdout (''gguf: loading model part '' @ [apostrophe] @ part_name @ [apostrophe]),
                     TorchLoad path]
         in case convert_part ftype get_name (torch_load path) of
              (evs, Some stop) \<Rightarrow> (head @ evs, Some stop)
            | (evs, None) \<Rightarrow>
                (case convert_parts vocab_only ftype get_name torch_load dir_model rest of
                   (evs', r) \<Rightarrow> (head @ evs @ evs', r))))"

section \<open>The script\<close>

definition count_model_parts :: "string list \<Rightarrow> event list \<times> nat" where
  "count_model_parts filenames =
     (let num_parts = length (filter (\<lambda>filename. startswith filename ''pytorch_model-'') filenames)
      in (if num_parts > 0
          then [Stdout (''gguf: found '' @ str_nat num_parts @ '' model parts'')]
          else [],
          num_parts))"

text \<open>Lines 257 to 262.\<close>

definition part_names :: "nat \<Rightarrow> string list" where
  "part_names num_parts =
     (if num_parts = 0 then [''pytorch_model.bin'']
      else map (\<lambda>n. ''pytorch_model-'' @ format_05 n @ ''-of-'' @ format_05 num_parts @ ''.bin'')
             [1 ..< num_parts + 1])"

text \<open>
  What the script reads from its arguments and from the model directory. Paths are
  given as the strings the script prints or opens. The model covers the runs in which
  \<open>config.json\<close> can be read and holds the keys the script reads, and the calls on the
  gguf writer that only pass hyperparameters on are left out.
\<close>

record env =
  arg_model :: string
  arg_vocab_only :: bool
  arg_ftype :: int
  fname_out :: string
  dir_model_is_dir :: bool
  dir_model_name :: string
  architecture :: string
  listdir :: "string list"
  tokenizer_json_file :: string
  tokenizer_json_is_file :: bool
  tokenizer_vocab :: "(string, int) pydict"
  tokenizer_added_tokens :: "(string \<times> int) list option"
  added_tokens_json :: "(string, int) pydict option"
  tensor_get_name :: "string \<Rightarrow> string option"
  torch_load :: "string \<Rightarrow> (string \<times> tensor) list"

text \<open>Lines 236 to 247: the three aligned lists handed to the writer.\<close>

definition emit_vocabulary :: "BpeVocab \<Rightarrow> event list" where
  "emit_vocabulary vocab =
     (let toks = all_tokens vocab
      in [AddTokenList (map fst toks),
          AddTokenScores (map (fst \<circ> snd) toks),
          AddTokenTypes (map (snd \<circ> snd) toks)])"

text \<open>Lines 311 to 322.\<close>

definition finalize :: "env \<Rightarrow> event list" where
  "finalize e =
     [Stdout ''gguf: write header'', Stdout ''gguf: write metadata''] @
     (if \<not> arg_vocab_only e then [Stdout ''gguf: write tensors'', WriteTensors] else []) @
     [Stdout (''gguf: model successfully exported to '' @ [apostrophe] @ fname_out e @ [apostrophe]),
      Stdout []]"

definition main :: "env \<Rightarrow> event list \<times> outcome" where
  "main e =
     (if \<not> dir_model_is_dir e
      then ([Stderr (''Error: '' @ arg_model e @ '' is not a directory'')], SysExit (Some 1))
      else
        (let t1 = [Stdout (''gguf: loading model '' @ dir_model_name e)]
         in if architecture e \<noteq> ''GPTNeoXForCausalLM''
            then (t1 @ [Stdout (''Model architecture not supported: '' @ architecture e)],
                  SysExit None)
            else
              (let (found, num_parts) = count_model_parts (listdir e);
                   t2 = t1 @ found @ [Stdout ''gguf: get model metadata'',
                                      Stdout ''gguf: get tokenizer metadata'']
               in if \<not> tokenizer_json_is_file e
                  then (t2 @ [Stderr (''Error: Missing '' @ tokenizer_json_file e)], SysExit (Some 1))
                  else
                    (let t3 = t2 @ [Stdout ''gguf: get gpt2 tokenizer vocab'']
                     in case BpeVocab_init (tokenizer_vocab e) (added_tokens_json e)
                               (Some (tokenizer_added_tokens e)) of
                          Inl err \<Rightarrow> (t3, Uncaught err)
                        | Inr vocab \<Rightarrow>
                            (let t4 = t3 @ emit_vocabulary vocab @
                                        [Stdout ''gguf: get tensor metadata'']
                             in case convert_parts (arg_vocab_only e) (arg_ftype e)
                                       (tensor_get_name e) (torch_load e) (arg_model e)
                                       (part_names num_parts) of
                                  (evs, Some stop) \<Rightarrow> (t4 @ evs, stop)
                                | (evs, None) \<Rightarrow> (t4 @ evs @ finalize e, Finished))))))"

section \<open>An example model directory\<close>

text \<open>
  A directory \<open>m\<close> with a two-token vocabulary and two checkpoint parts of one tensor
  each, converted to 16-bit; the examples below vary single fields of it.
\<close>

definition example_env :: env where
  "example_env =
     \<lparr>arg_model = ''m'', arg_vocab_only = False, arg_ftype = 1,
      fname_out = ''m/ggml-model-f16.gguf'',
      dir_model_is_dir = True, dir_model_name = ''m'',
      architecture = ''GPTNeoXForCausalLM'',
      listdir = [''config.json'', ''pytorch_model-00001-of-00002.bin'',
                 ''pytorch_model-00002-of-00002.bin'', ''tokenizer.json''],
      tokenizer_json_file = ''m/tokenizer.json'', tokenizer_json_is_file = True,
      tokenizer_vocab = [(''a'', 0), (''b'', 1)],
      tokenizer_added_tokens = None, added_tokens_json = None,
      tensor_get_name =
        (\<lambda>n. if n = ''gpt_neox.embed_in.weight'' then Some ''token_embd.weight''
             else if n = ''embed_out.weight'' then Some ''output.weight'' else None),
      torch_load =
        (\<lambda>p. if p = ''m/pytorch_model-00001-of-00002.bin''
             then [(''gpt_neox.embed_in.weight'', \<lparr>t_dtype = Float32, t_shape = [2, 4]\<rparr>)]
             else if p = ''m/pytorch_model-00002-of-00002.bin''
             then [(''embed_out.weight'', \<lparr>t_dtype = Float32, t_shape = [2, 4]\<rparr>)]
             else [])\<rparr>"

section \<open>One tensor\<close>

lemma to_supported_cases: "to_supported d = Float16 \<or> to_supported d = Float32"
  by (simp add: to_supported_def)

lemma convert_tensor_mapped:
  "\<not> not_needed name \<Longrightarrow> get_name name = Some new \<Longrightarrow>
   convert_tensor ftype get_name name data =
     ([Stdout (new @ '', n_dims = '' @ str_nat (length (squeeze (t_shape data))) @ '', torch.'' @
          dtype_name (t_dtype data) @ '' --> '' @
          dtype_name (astype_policy ftype (to_supported (t_dtype data))
                        (length (squeeze (t_shape data))) name)),
       AddTensor new
         (astype_policy ftype (to_supported (t_dtype data)) (length (squeeze (t_shape data))) name)
         (squeeze (t_shape data))],
      None)"
  by (simp add: convert_tensor_def Let_def)

lemma convert_tensor_unmapped:
  "\<not> not_needed name \<Longrightarrow> get_name name = None \<Longrightarrow>
   convert_tensor ftype get_name name data =
     ([Stdout (''Can not map tensor '' @ [apostrophe] @ name @ [apostrophe])], Some (SysExit None))"
  by (simp add: convert_tensor_def Let_def)

lemma convert_tensor_dropped:
  "not_needed name \<Longrightarrow> convert_tensor ftype get_name name data = ([], None)"
  by (simp add: convert_tensor_def)

section \<open>The dtype policy\<close>

text \<open>
  Claim C3. The dtype stored for a tensor is \<open>astype_policy\<close> applied to the normalised
  dtype, the rank \<open>n_dims\<close> the loop computes and the tensor's name. A dtype other than
  float16 and float32 becomes float32 and is no error. With \<open>ftype = 0\<close> (32-bit target)
  float16 becomes float32 whatever the rank, and any other dtype stays. With \<open>ftype = 1\<close>
  (16-bit target) float16 of rank 1 becomes float32, float32 of rank 2 under a name ending in
  \<open>.weight\<close> becomes float16, and every other combination stays. Whatever the target, a
  tensor that was not float16 and whose rank is not 2 is never stored as float16.
\<close>

theorem dtype_policy_rules:
  "(d \<noteq> Float16 \<and> d \<noteq> Float32 \<longrightarrow> to_supported d = Float32) \<and>
   (d = Float16 \<or> d = Float32 \<longrightarrow> to_supported d = d) \<and>
   astype_policy 0 Float16 n name = Float32 \<and>
   (dd \<noteq> Float16 \<longrightarrow> astype_policy 0 dd n name = dd) \<and>
   astype_policy 1 Float16 1 name = Float32 \<and>
   (endswith name ''.weight'' \<longrightarrow> astype_policy 1 Float32 2 name = Float16) \<and>
   (\<not> (dd = Float16 \<and> n = 1) \<and> \<not> (dd = Float32 \<and> n = 2 \<and> endswith name ''.weight'')
      \<longrightarrow> astype_policy 1 dd n name = dd) \<and>
   (n \<noteq> 2 \<and> dd \<noteq> Float16 \<longrightarrow> astype_policy ftype dd n name \<noteq> Float16) \<and>
   (\<not> not_needed name \<and> get_name name = Some new
      \<longrightarrow> map (fst \<circ> snd) (tensors_added (fst (convert_tensor ftype get_name name data))) =
          [astype_policy ftype (to_supported (t_dtype data)) (length (squeeze (t_shape data))) name])"
  by (auto simp: to_supported_def astype_policy_def convert_tensor_mapped)

theorem dtype_policy_rules_witness:
  "to_supported Int64 = Float32 \<and> to_supported BFloat16 = Float32 \<and>
   to_supported Float16 = Float16 \<and>
   astype_policy 0 Float16 3 ''layer.0.weight'' = Float32 \<and>
   astype_policy 0 Float32 2 ''layer.0.weight'' = Float32 \<and>
   astype_policy 1 Float16 1 ''layer.0.bias'' = Float32 \<and>
   astype_policy 1 Float32 2 ''layer.0.weight'' = Float16 \<and>
   astype_policy 1 Float32 1 ''layer.0.weight'' = Float32 \<and>
   astype_policy 1 Float16 2 ''layer.0.weight'' = Float16 \<and>
   astype_policy 1 Float32 3 ''layer.0.weight'' \<noteq> Float16 \<and>
   map (fst \<circ> snd) (tensors_added (fst (convert_tensor 1 (\<lambda>n. Some (''blk.'' @ n))
      ''layer.0.weight'' \<lparr>t_dtype = Int64, t_shape = [3, 5]\<rparr>))) = [Float16]"
  using dtype_policy_rules [of Int64 3 "''layer.0.weight''" Float32 0
      "\<lambda>n. Some (''blk.'' @ n)" "''blk.layer.0.weight''" "\<lparr>t_dtype = Int64, t_shape = [3, 5]\<rparr>"]
    dtype_policy_rules [of BFloat16 2 "''layer.0.weight''" Float32 1
      "\<lambda>n. Some (''blk.'' @ n)" "''blk.layer.0.weight''" "\<lparr>t_dtype = Int64, t_shape = [3, 5]\<rparr>"]
    dtype_policy_rules [of Float16 1 "''layer.0.bias''" Float32 1
      "\<lambda>n. Some (''blk.'' @ n)" "''blk.layer.0.weight''" "\<lparr>t_dtype = Int64, t_shape = [3, 5]\<rparr>"]
    dtype_policy_rules [of Float16 2 "''layer.0.weight''" Float16 1
      "\<lambda>n. Some (''blk.'' @ n)" "''blk.layer.0.weight''" "\<lparr>t_dtype = Int64, t_shape = [3, 5]\<rparr>"]
    dtype_policy_rules [of Float16 1 "''layer.0.weight''" Float32 1
      "\<lambda>n. Some (''blk.'' @ n)" "''blk.layer.0.weight''" "\<lparr>t_dtype = Int64, t_shape = [3, 5]\<rparr>"]
    dtype_policy_rules [of Float16 3 "''layer.0.weight''" Float32 1
      "\<lambda>n. Some (''blk.'' @ n)" "''blk.layer.0.weight''" "\<lparr>t_dtype = Int64, t_shape = [3, 5]\<rparr>"]
  by (simp add: endswith_def not_needed_def squeeze_def astype_policy_def to_supported_def)

text \<open>
  Claim C8. The dtype passed to the writer depends on nothing but the target, the
  tensor's dtype, its rank after squeezing and whether its name ends in \<open>.weight\<close>: two
  tensors that agree on these are stored with the same dtype, whatever their names,
  shapes and mapped names. Under the 32-bit target, deciding again on the decided dtype
  changes nothing, with any rank and name in the second round.
\<close>

theorem dtype_decision_pure_idempotent:
  "(t_dtype a = t_dtype b \<and> length (squeeze (t_shape a)) = length (squeeze (t_shape b)) \<and>
    endswith na ''.weight'' = endswith nb ''.weight'' \<and>
    \<not> not_needed na \<and> \<not> not_needed nb \<and> ga na = Some xa \<and> gb nb = Some xb
    \<longrightarrow> map (fst \<circ> snd) (tensors_added (fst (convert_tensor ftype ga na a))) =
        map (fst \<circ> snd) (tensors_added (fst (convert_tensor ftype gb nb b)))) \<and>
   astype_policy 0 (to_supported (astype_policy 0 (to_supported d) n name)) n' name' =
     astype_policy 0 (to_supported d) n name \<and>
   astype_policy 0 (astype_policy 0 dd n name) n' name' = astype_policy 0 dd n name"
proof -
  have pure: "astype_policy ftype x r na = astype_policy ftype x r nb"
    if "endswith na ''.weight'' = endswith nb ''.weight''" for x r
    using that by (simp add: astype_policy_def)
  have idem: "astype_policy 0 (astype_policy 0 x n name) n' name' = astype_policy 0 x n name" for x
    by (simp add: astype_policy_def)
  have norm: "to_supported (astype_policy 0 (to_supported d) n name) =
      astype_policy 0 (to_supported d) n name"
    by (simp add: astype_policy_def to_supported_def)
  show ?thesis
    using pure idem norm by (auto simp: convert_tensor_mapped)
qed

theorem dtype_decision_pure_idempotent_witness:
  "map (fst \<circ> snd) (tensors_added (fst (convert_tensor 1 (\<lambda>n. Some (''blk.'' @ n)) ''a.weight''
       \<lparr>t_dtype = Float32, t_shape = [4, 1, 8]\<rparr>))) =
   map (fst \<circ> snd) (tensors_added (fst (convert_tensor 1 (\<lambda>n. Some n) ''b.c.weight''
       \<lparr>t_dtype = Float32, t_shape = [2, 3]\<rparr>))) \<and>
   astype_policy 0 (to_supported (astype_policy 0 (to_supported Int32) 2 ''a.weight'')) 1 ''b.bias'' =
     astype_policy 0 (to_supported Int32) 2 ''a.weight''"
  using dtype_decision_pure_idempotent [of "\<lparr>t_dtype = Float32, t_shape = [4, 1, 8]\<rparr>"
      "\<lparr>t_dtype = Float32, t_shape = [2, 3]\<rparr>" "''a.weight''" "''b.c.weight''"
      "\<lambda>n. Some (''blk.'' @ n)" "''blk.a.weight''" "\<lambda>n. Some n" "''b.c.weight''" 1 Int32 2
      "''a.weight''" 1 "''b.bias''" Float16]
  by (simp add: squeeze_def endswith_def not_needed_def)

text \<open>
  Claim C9. The rank the policy reads is the number of dimensions left once every
  dimension of size 1 is removed, and the squeezed shape is the one passed to the writer.
  So under the 16-bit target a float32 tensor named \<open>....weight\<close> of shape \<open>(1, n)\<close> stays
  float32; with \<open>n \<noteq> 1\<close> its rank is 1 and it is stored with shape \<open>(n)\<close> (with \<open>n = 1\<close>
  no dimension is left at all). The same tensor with two dimensions other than 1 is stored
  as float16.
\<close>

theorem squeezed_rank_consulted:
  "(\<not> not_needed name \<and> get_name name = Some new \<longrightarrow>
      tensors_added (fst (convert_tensor ftype get_name name data)) =
        [(new,
          astype_policy ftype (to_supported (t_dtype data))
            (length (filter (\<lambda>d. d \<noteq> 1) (t_shape data))) name,
          filter (\<lambda>d. d \<noteq> 1) (t_shape data))]) \<and>
   (\<not> not_needed name \<and> get_name name = Some new \<and> endswith name ''.weight'' \<and>
    t_dtype data = Float32 \<and> t_shape data = [1, n]
      \<longrightarrow> map (fst \<circ> snd) (tensors_added (fst (convert_tensor 1 get_name name data))) = [Float32]) \<and>
   (\<not> not_needed name \<and> get_name name = Some new \<and> endswith name ''.weight'' \<and>
    t_dtype data = Float32 \<and> t_shape data = [1, n] \<and> n \<noteq> 1
      \<longrightarrow> tensors_added (fst (convert_tensor 1 get_name name data)) = [(new, Float32, [n])] \<and>
          length (squeeze (t_shape data)) = 1) \<and>
   (\<not> not_needed name \<and> get_name name = Some new \<and> endswith name ''.weight'' \<and>
    t_dtype data = Float32 \<and> t_shape data = [m, n] \<and> m \<noteq> 1 \<and> n \<noteq> 1
      \<longrightarrow> tensors_added (fst (convert_tensor 1 get_name name data)) = [(new, Float16, [m, n])])"
  by (auto simp: convert_tensor_mapped squeeze_def astype_policy_def to_supported_def)

theorem squeezed_rank_consulted_witness:
  "tensors_added (fst (convert_tensor 1 (\<lambda>n. Some (''blk.'' @ n)) ''embed.weight''
       \<lparr>t_dtype = Float32, t_shape = [1, 4096]\<rparr>)) = [(''blk.embed.weight'', Float32, [4096])] \<and>
   tensors_added (fst (convert_tensor 1 (\<lambda>n. Some (''blk.'' @ n)) ''embed.weight''
       \<lparr>t_dtype = Float32, t_shape = [2, 4096]\<rparr>)) = [(''blk.embed.weight'', Float16, [2, 4096])]"
  using squeezed_rank_consulted [of "''embed.weight''" "\<lambda>n. Some (''blk.'' @ n)" "''blk.embed.weight''"
      1 "\<lparr>t_dtype = Float32, t_shape = [1, 4096]\<rparr>" 4096 1]
    squeezed_rank_consulted [of "''embed.weight''" "\<lambda>n. Some (''blk.'' @ n)" "''blk.embed.weight''"
      1 "\<lparr>t_dtype = Float32, t_shape = [2, 4096]\<rparr>" 4096 2]
  by (auto simp: endswith_def not_needed_def)

section \<open>The loops over tensors and parts\<close>

lemma loads_append: "loads (xs @ ys) = loads xs @ loads ys"
  by (induction xs rule: loads.induct) simp_all


lemma stdout_lines_append: "stdout_lines (xs @ ys) = stdout_lines xs @ stdout_lines ys"
  by (induction xs rule: stdout_lines.induct) simp_all

lemma stderr_lines_append: "stderr_lines (xs @ ys) = stderr_lines xs @ stderr_lines ys"
  by (induction xs rule: stderr_lines.induct) simp_all

lemma convert_tensor_cases:
  obtains (dropped) "not_needed name" "convert_tensor ftype get_name name data = ([], None)"
  | (unmapped) "\<not> not_needed name" "get_name name = None"
      "convert_tensor ftype get_name name data =
         ([Stdout (''Can not map tensor '' @ [apostrophe] @ name @ [apostrophe])], Some (SysExit None))"
  | (mapped) new where "\<not> not_needed name" "get_name name = Some new"
      "snd (convert_tensor ftype get_name name data) = None"
      "tensors_added (fst (convert_tensor ftype get_name name data)) =
         [(new, astype_policy ftype (to_supported (t_dtype data)) (length (squeeze (t_shape data))) name,
           squeeze (t_shape data))]"
      "loads (fst (convert_tensor ftype get_name name data)) = []"
      "stderr_lines (fst (convert_tensor ftype get_name name data)) = []"
proof (cases "not_needed name")
  case True
  then show ?thesis using dropped by (simp add: convert_tensor_dropped)
next
  case False
  show ?thesis
  proof (cases "get_name name")
    case None
    with False show ?thesis using unmapped by (simp add: convert_tensor_unmapped)
  next
    case (Some new)
    with False show ?thesis using mapped [of new] by (simp add: convert_tensor_mapped)
  qed
qed

lemma convert_part_Cons_continue:
  "convert_tensor ftype get_name name data = (evs, None) \<Longrightarrow>
   convert_part ftype get_name ((name, data) # rest) =
     (evs @ fst (convert_part ftype get_name rest), snd (convert_part ftype get_name rest))"
  by (cases "convert_part ftype get_name rest") simp

lemma convert_part_Cons_stop:
  "convert_tensor ftype get_name name data = (evs, Some stop) \<Longrightarrow>
   convert_part ftype get_name ((name, data) # rest) = (evs, Some stop)"
  by simp

lemma convert_parts_Cons_stop:
  "snd (convert_part ftype get_name (reader (dir @ ''/'' @ part_name))) = Some stop \<Longrightarrow>
   convert_parts False ftype get_name reader dir (part_name # rest) =
     ([Stdout (''gguf: loading model part '' @ [apostrophe] @ part_name @ [apostrophe]),
       TorchLoad (dir @ ''/'' @ part_name)] @
      fst (convert_part ftype get_name (reader (dir @ ''/'' @ part_name))),
      Some stop)"
  by (cases "convert_part ftype get_name (reader (dir @ ''/'' @ part_name))") (simp add: Let_def)

lemma convert_parts_Cons_continue:
  "snd (convert_part ftype get_name (reader (dir @ ''/'' @ part_name))) = None \<Longrightarrow>
   convert_parts False ftype get_name reader dir (part_name # rest) =
     ([Stdout (''gguf: loading model part '' @ [apostrophe] @ part_name @ [apostrophe]),
       TorchLoad (dir @ ''/'' @ part_name)] @
      fst (convert_part ftype get_name (reader (dir @ ''/'' @ part_name))) @
      fst (convert_parts False ftype get_name reader dir rest),
      snd (convert_parts False ftype get_name reader dir rest))"
  by (cases "convert_part ftype get_name (reader (dir @ ''/'' @ part_name))";
      cases "convert_parts False ftype get_name reader dir rest") (simp add: Let_def)

lemma convert_parts_vocab_only:
  "convert_parts True ftype get_name reader dir parts = ([], None)"
  by (cases parts) simp_all


lemma convert_part_abort:
  assumes "\<forall>n \<in> set (map fst pre). \<not> not_needed n \<longrightarrow> get_name n \<noteq> None"
    and "\<not> not_needed name" and "get_name name = None"
  shows "convert_part ftype get_name (pre @ (name, data) # post) =
     (fst (convert_part ftype get_name pre) @
        [Stdout (''Can not map tensor '' @ [apostrophe] @ name @ [apostrophe])],
      Some (SysExit None))"
  using assms(1)
proof (induction pre)
  case Nil
  then show ?case using assms(2,3) by (simp add: convert_tensor_unmapped)
next
  case (Cons t pre)
  obtain n d where t: "t = (n, d)" by (cases t)
  from Cons.prems have rest: "\<forall>n \<in> set (map fst pre). \<not> not_needed n \<longrightarrow> get_name n \<noteq> None"
    by simp
  note ih = Cons.IH [OF rest]
  show ?case
  proof (cases rule: convert_tensor_cases [of n ftype get_name d])
    case dropped
    with ih show ?thesis unfolding t by (simp add: convert_part_Cons_continue del: convert_part.simps)
  next
    case unmapped
    with Cons.prems t show ?thesis by simp
  next
    case (mapped new)
    obtain evs where c: "convert_tensor ftype get_name n d = (evs, None)"
      using mapped(3) by (cases "convert_tensor ftype get_name n d") simp
    with ih show ?thesis unfolding t
      by (simp add: convert_part_Cons_continue del: convert_part.simps)
  qed
qed


lemma convert_part_quiet:
  "loads (fst (convert_part ftype get_name part)) = [] \<and>
   stderr_lines (fst (convert_part ftype get_name part)) = []"
proof (induction part)
  case Nil
  then show ?case by simp
next
  case (Cons t part)
  obtain name data where t: "t = (name, data)" by (cases t)
  show ?case
  proof (cases rule: convert_tensor_cases [of name ftype get_name data])
    case dropped
    with Cons.IH show ?thesis unfolding t
      by (simp add: convert_part_Cons_continue del: convert_part.simps)
  next
    case unmapped
    then show ?thesis unfolding t by simp
  next
    case (mapped new)
    obtain evs where c: "convert_tensor ftype get_name name data = (evs, None)"
      using mapped(3) by (cases "convert_tensor ftype get_name name data") simp
    with mapped Cons.IH show ?thesis unfolding t
      by (simp add: convert_part_Cons_continue loads_append stderr_lines_append
          del: convert_part.simps)
  qed
qed

lemma convert_part_stop:
  "snd (convert_part ftype get_name part) = Some stop \<Longrightarrow>
   stop = SysExit None \<and>
   (\<exists>name. get_name name = None \<and> \<not> not_needed name \<and> name \<in> set (map fst part) \<and>
      fst (convert_part ftype get_name part) \<noteq> [] \<and>
      last (fst (convert_part ftype get_name part)) =
        Stdout (''Can not map tensor '' @ [apostrophe] @ name @ [apostrophe]))"
proof (induction part)
  case Nil
  then show ?case by simp
next
  case (Cons t part)
  obtain name data where t: "t = (name, data)" by (cases t)
  show ?case
  proof (cases rule: convert_tensor_cases [of name ftype get_name data])
    case dropped
    with Cons show ?thesis unfolding t
      by (auto simp add: convert_part_Cons_continue simp del: convert_part.simps)
  next
    case unmapped
    with Cons.prems show ?thesis unfolding t by auto
  next
    case (mapped new)
    obtain evs where c: "convert_tensor ftype get_name name data = (evs, None)"
      using mapped(3) by (cases "convert_tensor ftype get_name name data") simp
    with Cons show ?thesis unfolding t
      by (auto simp add: convert_part_Cons_continue simp del: convert_part.simps)
  qed
qed

lemma convert_part_unmapped_stops:
  assumes "name \<in> set (map fst part)" and "\<not> not_needed name" and "get_name name = None"
  shows "snd (convert_part ftype get_name part) = Some (SysExit None)"
proof -
  let ?bad = "\<lambda>t. \<not> not_needed (fst t) \<and> get_name (fst t) = None"
  from assms have "\<exists>t \<in> set part. ?bad t" by auto
  then obtain pre t post where split: "part = pre @ t # post" and bad: "?bad t"
    and good: "\<forall>u \<in> set pre. \<not> ?bad u"
    using split_list_first_prop [of part ?bad] by blast
  obtain n d where t: "t = (n, d)" by (cases t)
  from good have "\<forall>n \<in> set (map fst pre). \<not> not_needed n \<longrightarrow> get_name n \<noteq> None"
    by auto
  from convert_part_abort [OF this, of n ftype d post] bad t split
  show ?thesis by simp
qed


lemma convert_parts_finished:
  "snd (convert_parts False ftype get_name reader dir parts) = None \<Longrightarrow>
   fst (convert_parts False ftype get_name reader dir parts) =
     concat (map (\<lambda>p. [Stdout (''gguf: loading model part '' @ [apostrophe] @ p @ [apostrophe]),
                        TorchLoad (dir @ ''/'' @ p)] @
                       fst (convert_part ftype get_name (reader (dir @ ''/'' @ p)))) parts)"
proof (induction parts)
  case Nil
  then show ?case by simp
next
  case (Cons p parts)
  show ?case
  proof (cases "snd (convert_part ftype get_name (reader (dir @ ''/'' @ p)))")
    case None
    with Cons show ?thesis
      by (simp add: convert_parts_Cons_continue del: convert_parts.simps)
  next
    case (Some stop)
    with Cons.prems show ?thesis
      by (simp add: convert_parts_Cons_stop del: convert_parts.simps)
  qed
qed

lemma convert_parts_finished_loads:
  "snd (convert_parts False ftype get_name reader dir parts) = None \<Longrightarrow>
   loads (fst (convert_parts False ftype get_name reader dir parts)) =
     map (\<lambda>p. dir @ ''/'' @ p) parts"
proof (induction parts)
  case Nil
  then show ?case by simp
next
  case (Cons p parts)
  show ?case
  proof (cases "snd (convert_part ftype get_name (reader (dir @ ''/'' @ p)))")
    case None
    with Cons show ?thesis
      by (simp add: convert_parts_Cons_continue loads_append convert_part_quiet
          del: convert_parts.simps)
  next
    case (Some stop)
    with Cons.prems show ?thesis
      by (simp add: convert_parts_Cons_stop del: convert_parts.simps)
  qed
qed

lemma convert_parts_loads_prefix:
  "\<exists>k. loads (fst (convert_parts vocab_only ftype get_name reader dir parts)) =
     take k (map (\<lambda>p. dir @ ''/'' @ p) parts)"
proof (cases vocab_only)
  case True
  then show ?thesis by (simp add: convert_parts_vocab_only)
next
  case False
  have "\<exists>k. loads (fst (convert_parts False ftype get_name reader dir parts)) =
     take k (map (\<lambda>p. dir @ ''/'' @ p) parts)"
  proof (induction parts)
    case Nil
    then show ?case by simp
  next
    case (Cons p parts)
    show ?case
    proof (cases "snd (convert_part ftype get_name (reader (dir @ ''/'' @ p)))")
      case None
      from Cons obtain k where
        "loads (fst (convert_parts False ftype get_name reader dir parts)) =
           take k (map (\<lambda>p. dir @ ''/'' @ p) parts)" by blast
      with None have "loads (fst (convert_parts False ftype get_name reader dir (p # parts))) =
          take (Suc k) (map (\<lambda>p. dir @ ''/'' @ p) (p # parts))"
        by (simp add: convert_parts_Cons_continue loads_append convert_part_quiet
            del: convert_parts.simps)
      then show ?thesis by blast
    next
      case (Some stop)
      then have "loads (fst (convert_parts False ftype get_name reader dir (p # parts))) =
          take (Suc 0) (map (\<lambda>p. dir @ ''/'' @ p) (p # parts))"
        by (simp add: convert_parts_Cons_stop loads_append convert_part_quiet
            del: convert_parts.simps)
      then show ?thesis by blast
    qed
  qed
  with False show ?thesis by simp
qed

lemma convert_parts_quiet:
  "stderr_lines (fst (convert_parts vocab_only ftype get_name reader dir parts)) = []"
proof (cases vocab_only)
  case True
  then show ?thesis by (simp add: convert_parts_vocab_only)
next
  case False
  have "stderr_lines (fst (convert_parts False ftype get_name reader dir parts)) = []"
  proof (induction parts)
    case Nil
    then show ?case by simp
  next
    case (Cons p parts)
    then show ?case
      by (cases "snd (convert_part ftype get_name (reader (dir @ ''/'' @ p)))")
        (simp_all add: convert_parts_Cons_continue convert_parts_Cons_stop stderr_lines_append
          convert_part_quiet del: convert_parts.simps)
  qed
  with False show ?thesis by simp
qed

lemma convert_parts_stop:
  "snd (convert_parts vocab_only ftype get_name reader dir parts) = Some stop \<Longrightarrow>
   stop = SysExit None \<and> \<not> vocab_only \<and>
   (\<exists>name. get_name name = None \<and> \<not> not_needed name \<and>
      fst (convert_parts vocab_only ftype get_name reader dir parts) \<noteq> [] \<and>
      last (fst (convert_parts vocab_only ftype get_name reader dir parts)) =
        Stdout (''Can not map tensor '' @ [apostrophe] @ name @ [apostrophe]))"
proof (cases vocab_only)
  case True
  assume "snd (convert_parts vocab_only ftype get_name reader dir parts) = Some stop"
  with True show ?thesis by (simp add: convert_parts_vocab_only)
next
  case False
  assume a: "snd (convert_parts vocab_only ftype get_name reader dir parts) = Some stop"
  have "snd (convert_parts False ftype get_name reader dir parts) = Some stop \<Longrightarrow>
   stop = SysExit None \<and>
   (\<exists>name. get_name name = None \<and> \<not> not_needed name \<and>
      fst (convert_parts False ftype get_name reader dir parts) \<noteq> [] \<and>
      last (fst (convert_parts False ftype get_name reader dir parts)) =
        Stdout (''Can not map tensor '' @ [apostrophe] @ name @ [apostrophe]))"
  proof (induction parts)
    case Nil
    then show ?case by simp
  next
    case (Cons p parts)
    show ?case
    proof (cases "snd (convert_part ftype get_name (reader (dir @ ''/'' @ p)))")
      case None
      with Cons show ?thesis
        by (auto simp add: convert_parts_Cons_continue simp del: convert_parts.simps)
    next
      case (Some s)
      from convert_part_stop [OF Some] Some Cons.prems show ?thesis
        by (auto simp add: convert_parts_Cons_stop simp del: convert_parts.simps)
    qed
  qed
  with a False show ?thesis by simp
qed

lemma convert_parts_unmapped_stops:
  assumes "p \<in> set parts" and "name \<in> set (map fst (reader (dir @ ''/'' @ p)))"
    and "\<not> not_needed name" and "get_name name = None"
  shows "snd (convert_parts False ftype get_name reader dir parts) = Some (SysExit None)"
  using assms(1)
proof (induction parts)
  case Nil
  then show ?case by simp
next
  case (Cons q parts)
  show ?case
  proof (cases "snd (convert_part ftype get_name (reader (dir @ ''/'' @ q)))")
    case None
    have "q \<noteq> p"
    proof
      assume "q = p"
      with convert_part_unmapped_stops [of name "reader (dir @ ''/'' @ p)" get_name ftype]
        assms(2,3,4) None show False by simp
    qed
    with Cons None show ?thesis
      by (simp add: convert_parts_Cons_continue del: convert_parts.simps)
  next
    case (Some s)
    with convert_part_stop [OF Some] show ?thesis
      by (simp add: convert_parts_Cons_stop del: convert_parts.simps)
  qed
qed


section \<open>The whole run\<close>

lemma count_model_parts_quiet:
  "loads (fst (count_model_parts fs)) = [] \<and> stderr_lines (fst (count_model_parts fs)) = []"
  by (simp add: count_model_parts_def Let_def)

lemma count_model_parts_snd:
  "snd (count_model_parts fs) = length (filter (\<lambda>f. startswith f ''pytorch_model-'') fs)"
  by (simp add: count_model_parts_def Let_def)

lemma emit_vocabulary_quiet:
  "loads (emit_vocabulary v) = [] \<and> stderr_lines (emit_vocabulary v) = []"
  by (simp add: emit_vocabulary_def Let_def)

lemma finalize_quiet: "loads (finalize e) = [] \<and> stderr_lines (finalize e) = []"
  by (simp add: finalize_def loads_append stderr_lines_append)

lemma main_not_dir:
  "\<not> dir_model_is_dir e \<Longrightarrow>
   main e = ([Stderr (''Error: '' @ arg_model e @ '' is not a directory'')], SysExit (Some 1))"
  by (simp add: main_def)

lemma main_bad_arch:
  "dir_model_is_dir e \<Longrightarrow> architecture e \<noteq> ''GPTNeoXForCausalLM'' \<Longrightarrow>
   main e = ([Stdout (''gguf: loading model '' @ dir_model_name e),
              Stdout (''Model architecture not supported: '' @ architecture e)], SysExit None)"
  by (simp add: main_def)

lemma main_no_tokenizer:
  "dir_model_is_dir e \<Longrightarrow> architecture e = ''GPTNeoXForCausalLM'' \<Longrightarrow>
   \<not> tokenizer_json_is_file e \<Longrightarrow>
   main e = (Stdout (''gguf: loading model '' @ dir_model_name e) #
             fst (count_model_parts (listdir e)) @
             [Stdout ''gguf: get model metadata'', Stdout ''gguf: get tokenizer metadata'',
              Stderr (''Error: Missing '' @ tokenizer_json_file e)], SysExit (Some 1))"
  by (simp add: main_def split: prod.splits)

lemma main_vocab_error:
  "dir_model_is_dir e \<Longrightarrow> architecture e = ''GPTNeoXForCausalLM'' \<Longrightarrow>
   tokenizer_json_is_file e \<Longrightarrow>
   BpeVocab_init (tokenizer_vocab e) (added_tokens_json e) (Some (tokenizer_added_tokens e)) = Inl err \<Longrightarrow>
   main e = (Stdout (''gguf: loading model '' @ dir_model_name e) #
             fst (count_model_parts (listdir e)) @
             [Stdout ''gguf: get model metadata'', Stdout ''gguf: get tokenizer metadata'',
              Stdout ''gguf: get gpt2 tokenizer vocab''], Uncaught err)"
  by (simp add: main_def split: prod.splits)

lemma main_loop:
  assumes "dir_model_is_dir e" and "architecture e = ''GPTNeoXForCausalLM''"
    and "tokenizer_json_is_file e"
    and "BpeVocab_init (tokenizer_vocab e) (added_tokens_json e) (Some (tokenizer_added_tokens e)) =
           Inr vocab"
    and "convert_parts (arg_vocab_only e) (arg_ftype e) (tensor_get_name e) (torch_load e)
           (arg_model e) (part_names (snd (count_model_parts (listdir e)))) = (evs, r)"
  shows "main e =
     (Stdout (''gguf: loading model '' @ dir_model_name e) #
      fst (count_model_parts (listdir e)) @
      [Stdout ''gguf: get model metadata'', Stdout ''gguf: get tokenizer metadata'',
       Stdout ''gguf: get gpt2 tokenizer vocab''] @
      emit_vocabulary vocab @ [Stdout ''gguf: get tensor metadata''] @ evs @
      (case r of None \<Rightarrow> finalize e | Some stop \<Rightarrow> []),
      case r of None \<Rightarrow> Finished | Some stop \<Rightarrow> stop)"
proof -
  obtain found n where c: "count_model_parts (listdir e) = (found, n)"
    by (cases "count_model_parts (listdir e)")
  with assms show ?thesis by (cases r) (simp_all add: main_def)
qed

lemma main_finished:
  assumes "snd (main e) = Finished"
  shows "dir_model_is_dir e \<and> architecture e = ''GPTNeoXForCausalLM'' \<and> tokenizer_json_is_file e \<and>
    (\<exists>vocab. BpeVocab_init (tokenizer_vocab e) (added_tokens_json e)
        (Some (tokenizer_added_tokens e)) = Inr vocab) \<and>
    snd (convert_parts (arg_vocab_only e) (arg_ftype e) (tensor_get_name e) (torch_load e)
           (arg_model e) (part_names (snd (count_model_parts (listdir e))))) = None"
proof -
  have d: "dir_model_is_dir e"
    using assms main_not_dir [of e] by (cases "dir_model_is_dir e") auto
  have a: "architecture e = ''GPTNeoXForCausalLM''"
    using assms d main_bad_arch [of e] by (cases "architecture e = ''GPTNeoXForCausalLM''") auto
  have t: "tokenizer_json_is_file e"
    using assms d a main_no_tokenizer [of e] by (cases "tokenizer_json_is_file e") auto
  obtain vocab where v: "BpeVocab_init (tokenizer_vocab e) (added_tokens_json e)
        (Some (tokenizer_added_tokens e)) = Inr vocab"
    using assms d a t main_vocab_error [of e]
    by (cases "BpeVocab_init (tokenizer_vocab e) (added_tokens_json e)
        (Some (tokenizer_added_tokens e))") auto
  obtain evs r where c: "convert_parts (arg_vocab_only e) (arg_ftype e) (tensor_get_name e)
      (torch_load e) (arg_model e) (part_names (snd (count_model_parts (listdir e)))) = (evs, r)"
    by (cases "convert_parts (arg_vocab_only e) (arg_ftype e) (tensor_get_name e)
      (torch_load e) (arg_model e) (part_names (snd (count_model_parts (listdir e))))")
  have "r = None"
  proof (cases r)
    case None
    then show ?thesis .
  next
    case (Some stop)
    with convert_parts_stop [of "arg_vocab_only e" "arg_ftype e" "tensor_get_name e" "torch_load e"
        "arg_model e" "part_names (snd (count_model_parts (listdir e)))" stop] c
    have "stop = SysExit None" by simp
    with main_loop [OF d a t v c] Some assms show ?thesis by simp
  qed
  with d a t v c show ?thesis by auto
qed






lemma main_early_loads:
  assumes "\<not> (dir_model_is_dir e \<and> architecture e = ''GPTNeoXForCausalLM'' \<and>
    tokenizer_json_is_file e)"
  shows "loads (fst (main e)) = []"
proof -
  consider "\<not> dir_model_is_dir e"
    | "dir_model_is_dir e" "architecture e \<noteq> ''GPTNeoXForCausalLM''"
    | "dir_model_is_dir e" "architecture e = ''GPTNeoXForCausalLM''" "\<not> tokenizer_json_is_file e"
    using assms by blast
  then show ?thesis
  proof cases
    case 1
    then show ?thesis by (simp add: main_not_dir)
  next
    case 2
    then show ?thesis by (simp add: main_bad_arch)
  next
    case 3
    then show ?thesis by (simp add: main_no_tokenizer loads_append count_model_parts_quiet)
  qed
qed

lemma main_loads_vocab_only:
  assumes "arg_vocab_only e"
  shows "loads (fst (main e)) = []"
proof (cases "dir_model_is_dir e \<and> architecture e = ''GPTNeoXForCausalLM'' \<and> tokenizer_json_is_file e")
  case False
  then show ?thesis by (rule main_early_loads)
next
  case True
  show ?thesis
  proof (cases "BpeVocab_init (tokenizer_vocab e) (added_tokens_json e)
        (Some (tokenizer_added_tokens e))")
    case (Inl err)
    with True main_vocab_error [of e err] show ?thesis
      by (simp add: loads_append count_model_parts_quiet)
  next
    case (Inr vocab)
    have c: "convert_parts (arg_vocab_only e) (arg_ftype e) (tensor_get_name e)
        (torch_load e) (arg_model e) (part_names (snd (count_model_parts (listdir e)))) = ([], None)"
      using assms by (simp add: convert_parts_vocab_only)
    from True Inr main_loop [of e vocab "[]" None] c show ?thesis
      by (simp add: loads_append count_model_parts_quiet emit_vocabulary_quiet finalize_quiet)
  qed
qed

lemma main_loads_finished:
  assumes "snd (main e) = Finished"
  shows "loads (fst (main e)) =
     (if arg_vocab_only e then []
      else map (\<lambda>p. arg_model e @ ''/'' @ p)
             (part_names (length (filter (\<lambda>f. startswith f ''pytorch_model-'') (listdir e)))))"
proof -
  from main_finished [OF assms] obtain vocab where
    d: "dir_model_is_dir e" and a: "architecture e = ''GPTNeoXForCausalLM''"
    and t: "tokenizer_json_is_file e"
    and v: "BpeVocab_init (tokenizer_vocab e) (added_tokens_json e)
        (Some (tokenizer_added_tokens e)) = Inr vocab"
    and n: "snd (convert_parts (arg_vocab_only e) (arg_ftype e) (tensor_get_name e) (torch_load e)
           (arg_model e) (part_names (snd (count_model_parts (listdir e))))) = None"
    by blast
  obtain evs where c: "convert_parts (arg_vocab_only e) (arg_ftype e) (tensor_get_name e)
      (torch_load e) (arg_model e) (part_names (snd (count_model_parts (listdir e)))) = (evs, None)"
    using n by (cases "convert_parts (arg_vocab_only e) (arg_ftype e) (tensor_get_name e)
      (torch_load e) (arg_model e) (part_names (snd (count_model_parts (listdir e))))") simp
  have m: "loads (fst (main e)) = loads evs"
    using main_loop [OF d a t v c]
    by (simp add: loads_append count_model_parts_quiet emit_vocabulary_quiet finalize_quiet)
  show ?thesis
  proof (cases "arg_vocab_only e")
    case True
    with c m show ?thesis by (simp add: convert_parts_vocab_only)
  next
    case False
    with c convert_parts_finished_loads [of "arg_ftype e" "tensor_get_name e" "torch_load e"
        "arg_model e" "part_names (snd (count_model_parts (listdir e)))"] m
    show ?thesis by (simp add: count_model_parts_snd)
  qed
qed

lemma main_unmapped:
  assumes d: "dir_model_is_dir e" and a: "architecture e = ''GPTNeoXForCausalLM''"
    and t: "tokenizer_json_is_file e"
    and v: "BpeVocab_init (tokenizer_vocab e) (added_tokens_json e)
        (Some (tokenizer_added_tokens e)) = Inr vocab"
    and "\<not> arg_vocab_only e"
    and "p \<in> set (part_names (snd (count_model_parts (listdir e))))"
    and "name \<in> set (map fst (torch_load e (arg_model e @ ''/'' @ p)))"
    and "\<not> not_needed name" and "tensor_get_name e name = None"
  shows "snd (main e) = SysExit None \<and> stderr_lines (fst (main e)) = [] \<and>
    (\<exists>bad. tensor_get_name e bad = None \<and> \<not> not_needed bad \<and>
       last (fst (main e)) = Stdout (''Can not map tensor '' @ [apostrophe] @ bad @ [apostrophe]))"
proof -
  let ?cp = "convert_parts (arg_vocab_only e) (arg_ftype e) (tensor_get_name e)
      (torch_load e) (arg_model e) (part_names (snd (count_model_parts (listdir e))))"
  have s: "snd ?cp = Some (SysExit None)"
    using convert_parts_unmapped_stops [of p "part_names (snd (count_model_parts (listdir e)))"
        name "torch_load e" "arg_model e" "tensor_get_name e" "arg_ftype e"] assms(5-9)
    by simp
  obtain evs where c: "?cp = (evs, Some (SysExit None))"
    using s by (cases ?cp) simp
  from convert_parts_stop [OF s] c obtain bad where
    bad: "tensor_get_name e bad = None" "\<not> not_needed bad" "evs \<noteq> []"
      "last evs = Stdout (''Can not map tensor '' @ [apostrophe] @ bad @ [apostrophe])"
    by auto
  have q: "stderr_lines evs = []"
    using convert_parts_quiet [of "arg_vocab_only e" "arg_ftype e" "tensor_get_name e"
        "torch_load e" "arg_model e" "part_names (snd (count_model_parts (listdir e)))"] c
    by simp
  from main_loop [OF d a t v c] bad q show ?thesis
    by (auto simp: stderr_lines_append count_model_parts_quiet emit_vocabulary_quiet)
qed

text \<open>
  Claim C10. When the architecture read from \<open>config.json\<close> is not \<open>GPTNeoXForCausalLM\<close>,
  and when a tensor that is kept cannot be mapped, the script ends through \<open>sys.exit()\<close>
  with no argument, so with status 0; the line naming the architecture or the tensor is
  the last one written, on standard output, and nothing is written to standard error.
  When the model path is not a directory, and when \<open>tokenizer.json\<close> is missing, it writes
  to standard error and ends through \<open>sys.exit(1)\<close>, with status 1.
\<close>

theorem exit_paths:
  "(dir_model_is_dir e \<and> architecture e \<noteq> ''GPTNeoXForCausalLM'' \<longrightarrow>
      main e = ([Stdout (''gguf: loading model '' @ dir_model_name e),
                 Stdout (''Model architecture not supported: '' @ architecture e)], SysExit None) \<and>
      exit_status (snd (main e)) = 0 \<and> stderr_lines (fst (main e)) = []) \<and>
   (dir_model_is_dir e \<and> architecture e = ''GPTNeoXForCausalLM'' \<and> tokenizer_json_is_file e \<and>
    BpeVocab_init (tokenizer_vocab e) (added_tokens_json e) (Some (tokenizer_added_tokens e)) =
      Inr vocab \<and>
    \<not> arg_vocab_only e \<and> p \<in> set (part_names (snd (count_model_parts (listdir e)))) \<and>
    name \<in> set (map fst (torch_load e (arg_model e @ ''/'' @ p))) \<and>
    \<not> not_needed name \<and> tensor_get_name e name = None \<longrightarrow>
      snd (main e) = SysExit None \<and> exit_status (snd (main e)) = 0 \<and>
      stderr_lines (fst (main e)) = [] \<and>
      (\<exists>bad. tensor_get_name e bad = None \<and> \<not> not_needed bad \<and>
         last (fst (main e)) = Stdout (''Can not map tensor '' @ [apostrophe] @ bad @ [apostrophe]))) \<and>
   (\<not> dir_model_is_dir e \<longrightarrow>
      main e = ([Stderr (''Error: '' @ arg_model e @ '' is not a directory'')], SysExit (Some 1)) \<and>
      exit_status (snd (main e)) = 1 \<and> stdout_lines (fst (main e)) = []) \<and>
   (dir_model_is_dir e \<and> architecture e = ''GPTNeoXForCausalLM'' \<and> \<not> tokenizer_json_is_file e \<longrightarrow>
      snd (main e) = SysExit (Some 1) \<and> exit_status (snd (main e)) = 1 \<and>
      stderr_lines (fst (main e)) = [''Error: Missing '' @ tokenizer_json_file e])"
proof -
  have 1: "dir_model_is_dir e \<and> architecture e \<noteq> ''GPTNeoXForCausalLM'' \<longrightarrow>
      main e = ([Stdout (''gguf: loading model '' @ dir_model_name e),
                 Stdout (''Model architecture not supported: '' @ architecture e)], SysExit None) \<and>
      exit_status (snd (main e)) = 0 \<and> stderr_lines (fst (main e)) = []"
    by (simp add: main_bad_arch)
  have 2: "dir_model_is_dir e \<and> architecture e = ''GPTNeoXForCausalLM'' \<and> tokenizer_json_is_file e \<and>
    BpeVocab_init (tokenizer_vocab e) (added_tokens_json e) (Some (tokenizer_added_tokens e)) =
      Inr vocab \<and>
    \<not> arg_vocab_only e \<and> p \<in> set (part_names (snd (count_model_parts (listdir e)))) \<and>
    name \<in> set (map fst (torch_load e (arg_model e @ ''/'' @ p))) \<and>
    \<not> not_needed name \<and> tensor_get_name e name = None \<longrightarrow>
      snd (main e) = SysExit None \<and> exit_status (snd (main e)) = 0 \<and>
      stderr_lines (fst (main e)) = [] \<and>
      (\<exists>bad. tensor_get_name e bad = None \<and> \<not> not_needed bad \<and>
         last (fst (main e)) = Stdout (''Can not map tensor '' @ [apostrophe] @ bad @ [apostrophe]))"
    using main_unmapped [of e vocab p name] by simp
  have 3: "\<not> dir_model_is_dir e \<longrightarrow>
      main e = ([Stderr (''Error: '' @ arg_model e @ '' is not a directory'')], SysExit (Some 1)) \<and>
      exit_status (snd (main e)) = 1 \<and> stdout_lines (fst (main e)) = []"
    by (simp add: main_not_dir)
  have 4: "dir_model_is_dir e \<and> architecture e = ''GPTNeoXForCausalLM'' \<and> \<not> tokenizer_json_is_file e \<longrightarrow>
      snd (main e) = SysExit (Some 1) \<and> exit_status (snd (main e)) = 1 \<and>
      stderr_lines (fst (main e)) = [''Error: Missing '' @ tokenizer_json_file e]"
    by (simp add: main_no_tokenizer stderr_lines_append count_model_parts_quiet)
  from 1 2 3 4 show ?thesis by blast
qed


theorem exit_paths_witness:
  "main (example_env\<lparr>architecture := ''LlamaForCausalLM''\<rparr>) =
     ([Stdout ''gguf: loading model m'',
       Stdout ''Model architecture not supported: LlamaForCausalLM''], SysExit None) \<and>
   exit_status (snd (main (example_env\<lparr>architecture := ''LlamaForCausalLM''\<rparr>))) = 0 \<and>
   snd (main (example_env\<lparr>tensor_get_name := (\<lambda>n. None)\<rparr>)) = SysExit None \<and>
   exit_status (snd (main (example_env\<lparr>tensor_get_name := (\<lambda>n. None)\<rparr>))) = 0 \<and>
   stderr_lines (fst (main (example_env\<lparr>tensor_get_name := (\<lambda>n. None)\<rparr>))) = [] \<and>
   last (fst (main (example_env\<lparr>tensor_get_name := (\<lambda>n. None)\<rparr>))) =
     Stdout (''Can not map tensor '' @ [apostrophe] @ ''gpt_neox.embed_in.weight'' @ [apostrophe]) \<and>
   main (example_env\<lparr>dir_model_is_dir := False\<rparr>) =
     ([Stderr ''Error: m is not a directory''], SysExit (Some 1)) \<and>
   exit_status (snd (main (example_env\<lparr>dir_model_is_dir := False\<rparr>))) = 1 \<and>
   snd (main (example_env\<lparr>tokenizer_json_is_file := False\<rparr>)) = SysExit (Some 1) \<and>
   stderr_lines (fst (main (example_env\<lparr>tokenizer_json_is_file := False\<rparr>))) =
     [''Error: Missing m/tokenizer.json'']"
proof -
  have parts: "part_names (snd (count_model_parts (listdir example_env))) =
      [''pytorch_model-00001-of-00002.bin'', ''pytorch_model-00002-of-00002.bin'']"
    by code_simp
  have vocab: "BpeVocab_init (tokenizer_vocab example_env) (added_tokens_json example_env)
      (Some (tokenizer_added_tokens example_env)) =
      Inr \<lparr>bpe_tokenizer = [(''a'', 0), (''b'', 1)], added_tokens_list = [],
           vocab_size_base = 2, vocab_size = 2\<rparr>"
    by code_simp
  have last: "last (fst (main (example_env\<lparr>tensor_get_name := (\<lambda>n. None)\<rparr>))) =
     Stdout (''Can not map tensor '' @ [apostrophe] @ ''gpt_neox.embed_in.weight'' @ [apostrophe])"
    by code_simp
  show ?thesis
    using exit_paths [of "example_env\<lparr>architecture := ''LlamaForCausalLM''\<rparr>"
        "\<lparr>bpe_tokenizer = [(''a'', 0), (''b'', 1)], added_tokens_list = [],
           vocab_size_base = 2, vocab_size = 2\<rparr>" "''pytorch_model-00001-of-00002.bin''"
        "''gpt_neox.embed_in.weight''"]
      exit_paths [of "example_env\<lparr>tensor_get_name := (\<lambda>n. None)\<rparr>"
        "\<lparr>bpe_tokenizer = [(''a'', 0), (''b'', 1)], added_tokens_list = [],
           vocab_size_base = 2, vocab_size = 2\<rparr>" "''pytorch_model-00001-of-00002.bin''"
        "''gpt_neox.embed_in.weight''"]
      exit_paths [of "example_env\<lparr>dir_model_is_dir := False\<rparr>"
        "\<lparr>bpe_tokenizer = [(''a'', 0), (''b'', 1)], added_tokens_list = [],
           vocab_size_base = 2, vocab_size = 2\<rparr>" "''pytorch_model-00001-of-00002.bin''"
        "''gpt_neox.embed_in.weight''"]
      exit_paths [of "example_env\<lparr>tokenizer_json_is_file := False\<rparr>"
        "\<lparr>bpe_tokenizer = [(''a'', 0), (''b'', 1)], added_tokens_list = [],
           vocab_size_base = 2, vocab_size = 2\<rparr>" "''pytorch_model-00001-of-00002.bin''"
        "''gpt_neox.embed_in.weight''"]
      parts vocab last
    by (simp add: example_env_def not_needed_def endswith_def)
qed

lemma part_names_nth:
  "0 < n \<Longrightarrow> length (part_names n) = n \<and>
   (\<forall>i<n. part_names n ! i =
      ''pytorch_model-'' @ format_05 (i + 1) @ ''-of-'' @ format_05 n @ ''.bin'')"
  by (simp add: part_names_def del: upt_Suc)

text \<open>
  Claim C7. With no file named \<open>pytorch_model-...\<close> in the directory the list of parts is
  the single name \<open>pytorch_model.bin\<close>; with \<open>n > 0\<close> of them it has \<open>n\<close> names, the
  \<open>i\<close>-th (counted from 1) being \<open>pytorch_model-{i:05}-of-{n:05}.bin\<close>. In a run that
  reaches its end, the files loaded are exactly these, in this order, and none at all with
  \<open>--vocab-only\<close>. The trace of the loop is, part after part, the load of the part followed
  by everything its tensors cause, so a part is finished before the next is loaded, and no
  load happens while a part is converted. In a run that stops at a tensor it cannot map,
  the files loaded are the first ones of the list, up to the part that holds that tensor.
\<close>

theorem shard_enumeration:
  "part_names 0 = [''pytorch_model.bin''] \<and>
   (0 < n \<longrightarrow> length (part_names n) = n \<and>
      (\<forall>i<n. part_names n ! i =
         ''pytorch_model-'' @ format_05 (i + 1) @ ''-of-'' @ format_05 n @ ''.bin'')) \<and>
   (snd (main e) = Finished \<longrightarrow>
      loads (fst (main e)) =
        (if arg_vocab_only e then []
         else map (\<lambda>p. arg_model e @ ''/'' @ p)
                (part_names (length (filter (\<lambda>f. startswith f ''pytorch_model-'') (listdir e)))))) \<and>
   (arg_vocab_only e \<longrightarrow> loads (fst (main e)) = []) \<and>
   convert_parts True ftype get_name reader dir parts = ([], None) \<and>
   (snd (convert_parts False ftype get_name reader dir parts) = None \<longrightarrow>
      fst (convert_parts False ftype get_name reader dir parts) =
        concat (map (\<lambda>p. [Stdout (''gguf: loading model part '' @ [apostrophe] @ p @ [apostrophe]),
                           TorchLoad (dir @ ''/'' @ p)] @
                          fst (convert_part ftype get_name (reader (dir @ ''/'' @ p)))) parts)) \<and>
   loads (fst (convert_part ftype get_name part)) = [] \<and>
   (\<exists>k. loads (fst (convert_parts vocab_only ftype get_name reader dir parts)) =
      take k (map (\<lambda>p. dir @ ''/'' @ p) parts))"
  using part_names_nth [of n] main_loads_finished [of e] main_loads_vocab_only [of e]
    convert_parts_finished [of ftype get_name reader dir parts]
    convert_parts_loads_prefix [of vocab_only ftype get_name reader dir parts]
  by (simp add: convert_parts_vocab_only convert_part_quiet part_names_def del: upt_Suc)

theorem shard_enumeration_witness:
  "part_names 3 = [''pytorch_model-00001-of-00003.bin'', ''pytorch_model-00002-of-00003.bin'',
                   ''pytorch_model-00003-of-00003.bin''] \<and>
   snd (main example_env) = Finished \<and>
   loads (fst (main example_env)) =
     [''m/pytorch_model-00001-of-00002.bin'', ''m/pytorch_model-00002-of-00002.bin''] \<and>
   snd (main (example_env\<lparr>listdir := [''config.json'', ''pytorch_model.bin'']\<rparr>)) = Finished \<and>
   loads (fst (main (example_env\<lparr>listdir := [''config.json'', ''pytorch_model.bin'']\<rparr>))) =
     [''m/pytorch_model.bin''] \<and>
   snd (main (example_env\<lparr>arg_vocab_only := True\<rparr>)) = Finished \<and>
   loads (fst (main (example_env\<lparr>arg_vocab_only := True\<rparr>))) = []"
proof -
  have names: "part_names 3 = [''pytorch_model-00001-of-00003.bin'',
      ''pytorch_model-00002-of-00003.bin'', ''pytorch_model-00003-of-00003.bin'']"
    "part_names (length (filter (\<lambda>f. startswith f ''pytorch_model-'') (listdir example_env))) =
      [''pytorch_model-00001-of-00002.bin'', ''pytorch_model-00002-of-00002.bin'']"
    "part_names (length (filter (\<lambda>f. startswith f ''pytorch_model-'')
       [''config.json'', ''pytorch_model.bin''])) = [''pytorch_model.bin'']"
    by code_simp+
  have fin: "snd (main example_env) = Finished"
    "snd (main (example_env\<lparr>listdir := [''config.json'', ''pytorch_model.bin'']\<rparr>)) = Finished"
    "snd (main (example_env\<lparr>arg_vocab_only := True\<rparr>)) = Finished"
    by code_simp+
  show ?thesis
    using shard_enumeration [of 3 example_env 1 "\<lambda>n. None" "\<lambda>p. []" "''m''" "[]" "[]" False]
      shard_enumeration [of 3 "example_env\<lparr>listdir := [''config.json'', ''pytorch_model.bin'']\<rparr>"
        1 "\<lambda>n. None" "\<lambda>p. []" "''m''" "[]" "[]" False]
      shard_enumeration [of 3 "example_env\<lparr>arg_vocab_only := True\<rparr>"
        1 "\<lambda>n. None" "\<lambda>p. []" "''m''" "[]" "[]" False]
      names fin
    by (simp add: example_env_def)
qed

section \<open>The vocabulary\<close>

lemma map_insort_key: "map f (insort_key f x ys) = insort (f x) (map f ys)"
  by (induction ys) simp_all

lemma map_sort_key: "map f (sort_key f xs) = sort (map f xs)"
  by (induction xs) (simp_all add: map_insort_key)

lemma map_of_dict_setitem: "map_of (dict_setitem d k v) = (map_of d)(k \<mapsto> v)"
  by (induction d k v rule: dict_setitem.induct) auto

lemma keys_dict_setitem:
  "map fst (dict_setitem d k v) = (if k \<in> set (map fst d) then map fst d else map fst d @ [k])"
  by (induction d k v rule: dict_setitem.induct) auto

lemma foldl_dict_setitem:
  "map_of (foldl (\<lambda>d (k, v). dict_setitem d k v) d kvs) = map_of d ++ map_of (rev kvs)"
proof (induction kvs arbitrary: d)
  case Nil
  then show ?case by simp
next
  case (Cons kv kvs)
  obtain k v where kv: "kv = (k, v)" by (cases kv)
  show ?case
    unfolding kv by (simp add: Cons.IH map_of_dict_setitem map_add_upd_left flip: map_add_assoc)
      (auto simp: map_add_def fun_eq_iff split: option.splits)
qed

lemma foldl_dict_setitem_keys:
  "distinct (map fst d) \<Longrightarrow>
   distinct (map fst (foldl (\<lambda>d (k, v). dict_setitem d k v) d kvs)) \<and>
   set (map fst (foldl (\<lambda>d (k, v). dict_setitem d k v) d kvs)) = set (map fst d) \<union> set (map fst kvs)"
proof (induction kvs arbitrary: d)
  case Nil
  then show ?case by simp
next
  case (Cons kv kvs)
  obtain k v where kv: "kv = (k, v)" by (cases kv)
  have "distinct (map fst (dict_setitem d k v))"
    using Cons.prems by (simp add: keys_dict_setitem)
  from Cons.IH [OF this] show ?case
    unfolding kv by (auto simp: keys_dict_setitem split: if_splits)
qed

lemma map_of_py_dict: "map_of (py_dict kvs) = map_of (rev kvs)"
  by (simp add: py_dict_def foldl_dict_setitem)

lemma keys_py_dict:
  "distinct (map fst (py_dict kvs)) \<and> set (map fst (py_dict kvs)) = set (map fst kvs)"
  using foldl_dict_setitem_keys [of "[]" kvs] by (simp add: py_dict_def)


lemma BpeVocab_init_fails:
  "sort (map snd (load_added_tokens vocab fa tj)) \<noteq>
     map int [length vocab ..< length vocab + length (load_added_tokens vocab fa tj)] \<Longrightarrow>
   BpeVocab_init vocab fa tj =
     Inl (PyException (sequential_message (length vocab)
            (sort (map snd (load_added_tokens vocab fa tj)))))"
  by (simp add: BpeVocab_init_def Let_def)

lemma BpeVocab_init_succeeds:
  "sort (map snd (load_added_tokens vocab fa tj)) =
     map int [length vocab ..< length vocab + length (load_added_tokens vocab fa tj)] \<Longrightarrow>
   BpeVocab_init vocab fa tj =
     Inr \<lparr>bpe_tokenizer = vocab,
          added_tokens_list = map fst (sort_key snd (load_added_tokens vocab fa tj)),
          vocab_size_base = length vocab,
          vocab_size = length vocab + length (load_added_tokens vocab fa tj)\<rparr>"
  by (simp add: BpeVocab_init_def Let_def)

lemma BpeVocab_init_Inr:
  assumes "BpeVocab_init vocab fa tj = Inr v"
  shows "sort (map snd (load_added_tokens vocab fa tj)) =
     map int [length vocab ..< length vocab + length (load_added_tokens vocab fa tj)]"
    and "v = \<lparr>bpe_tokenizer = vocab,
          added_tokens_list = map fst (sort_key snd (load_added_tokens vocab fa tj)),
          vocab_size_base = length vocab,
          vocab_size = length vocab + length (load_added_tokens vocab fa tj)\<rparr>"
proof -
  show c: "sort (map snd (load_added_tokens vocab fa tj)) =
     map int [length vocab ..< length vocab + length (load_added_tokens vocab fa tj)]"
  proof (rule ccontr)
    assume "\<not> ?thesis"
    from BpeVocab_init_fails [OF this] assms show False by simp
  qed
  from BpeVocab_init_succeeds [OF c] assms
  show "v = \<lparr>bpe_tokenizer = vocab,
          added_tokens_list = map fst (sort_key snd (load_added_tokens vocab fa tj)),
          vocab_size_base = length vocab,
          vocab_size = length vocab + length (load_added_tokens vocab fa tj)\<rparr>"
    by simp
qed

lemma length_bpe_tokens: "length (bpe_tokens v) = length (bpe_tokenizer v)"
  by (simp add: bpe_tokens_def)

lemma nth_bpe_tokens:
  "i < length (bpe_tokenizer v) \<Longrightarrow>
   bpe_tokens v ! i = (fst (bpe_tokenizer v ! i), 0, bpe_toktype i (fst (bpe_tokenizer v ! i)))"
  by (simp add: bpe_tokens_def nth_enumerate_eq)

lemma nth_all_tokens_base:
  "i < length (bpe_tokenizer v) \<Longrightarrow>
   all_tokens v ! i = (fst (bpe_tokenizer v ! i), 0, bpe_toktype i (fst (bpe_tokenizer v ! i)))"
  by (simp add: all_tokens_def nth_append length_bpe_tokens nth_bpe_tokens)

lemma nth_all_tokens_added:
  "j < length (added_tokens_list v) \<Longrightarrow>
   all_tokens v ! (length (bpe_tokenizer v) + j) = (added_tokens_list v ! j, - 1000, USER_DEFINED)"
  by (simp add: all_tokens_def nth_append length_bpe_tokens added_tokens_def)

lemma length_all_tokens:
  "length (all_tokens v) = length (bpe_tokenizer v) + length (added_tokens_list v)"
  by (simp add: all_tokens_def length_bpe_tokens added_tokens_def)

lemma sorted_added_nth:
  assumes "sort (map snd added) = map int [b ..< b + length added]" and "j < length added"
  shows "sort_key snd added ! j \<in> set added \<and> snd (sort_key snd added ! j) = int (b + j)"
proof -
  have "sort_key snd added ! j \<in> set (sort_key snd added)"
    using assms(2) nth_mem [of j "sort_key snd added"] by (simp only: length_sort)
  then have m: "sort_key snd added ! j \<in> set added" by (simp only: set_sort)
  have "snd (sort_key snd added ! j) = map snd (sort_key snd added) ! j"
    using assms(2) by simp
  also have "\<dots> = map int [b ..< b + length added] ! j"
    by (simp only: map_sort_key assms(1))
  also have "\<dots> = int (b + j)"
    using assms(2) by simp
  finally show ?thesis using m by simp
qed

lemma startswith_append: "startswith s (p @ q) \<Longrightarrow> startswith s p"
proof -
  assume "startswith s (p @ q)"
  then have "take (length (p @ q)) s = p @ q" by (simp add: startswith_def)
  then have "take (length p) (take (length (p @ q)) s) = take (length p) (p @ q)" by simp
  then show ?thesis by (simp add: startswith_def min_def)
qed

lemma startswith_byte: "startswith text ''<0x'' \<Longrightarrow> startswith text ''<''"
  using startswith_append [of "text" "''<''" "''0x''"] by simp

lemma bpe_toktype_cases:
  "(bpe_toktype i text = UNKNOWN \<longleftrightarrow> i = 0 \<and> text = ''<unk>'') \<and>
   (bpe_toktype i text = CONTROL \<longleftrightarrow>
      (i = 1 \<or> i = 2) \<and> startswith text ''<'' \<and> endswith text ''>'') \<and>
   (bpe_toktype i text = BYTE \<longleftrightarrow>
      3 \<le> i \<and> i \<le> 258 \<and> startswith text ''<0x'' \<and> endswith text ''>'') \<and>
   bpe_toktype i text \<noteq> USER_DEFINED \<and> bpe_toktype i text \<noteq> UNUSED"
proof -
  have u: "startswith ''<unk>'' ''<'' \<and> endswith ''<unk>'' ''>''"
    by (simp add: startswith_def endswith_def)
  show ?thesis
    using u startswith_byte [of "text"] by (auto simp: bpe_toktype_def)
qed


text \<open>
  Claim C1. Whenever the sorted ids of the added tokens are not the list
  \<open>vocab_size, ..., vocab_size + k - 1\<close> (\<open>k\<close> the number of added tokens), the constructor
  raises an exception whose message gives \<open>k\<close>, the range \<open>vocab_size - vocab_size + k - 1\<close>
  and the sorted ids it found; otherwise it returns a vocabulary. With a base vocabulary
  of 100 tokens and the added tokens \<open>{"<pad>": 100, "<sep>": 105}\<close> the message names the
  range 100 - 101. The exception is Python's \<open>Exception\<close>.
\<close>

theorem added_ids_must_be_contiguous:
  "(sort (map snd (load_added_tokens vocab fa tj)) \<noteq>
      map int [length vocab ..< length vocab + length (load_added_tokens vocab fa tj)] \<longrightarrow>
    BpeVocab_init vocab fa tj =
      Inl (PyException
        (''Expected the '' @ str_nat (length (load_added_tokens vocab fa tj)) @
         '' added token ID(s) to be sequential in the range '' @ str_nat (length vocab) @
         '' - '' @ str_int (int (length vocab) + int (length (load_added_tokens vocab fa tj)) - 1) @
         ''; got '' @ str_int_list (sort (map snd (load_added_tokens vocab fa tj)))))) \<and>
   (sort (map snd (load_added_tokens vocab fa tj)) =
      map int [length vocab ..< length vocab + length (load_added_tokens vocab fa tj)] \<longrightarrow>
    (\<exists>v. BpeVocab_init vocab fa tj = Inr v)) \<and>
   (length vocab = 100 \<longrightarrow>
    BpeVocab_init vocab (Some [(''<pad>'', 100), (''<sep>'', 105)]) tj =
      Inl (PyException
        ''Expected the 2 added token ID(s) to be sequential in the range 100 - 101; got [100, 105]''))"
proof -
  have msg: "sequential_message 100 [100, 105] =
      ''Expected the 2 added token ID(s) to be sequential in the range 100 - 101; got [100, 105]''"
    by code_simp
  have gap: "length vocab = 100 \<longrightarrow>
    BpeVocab_init vocab (Some [(''<pad>'', 100), (''<sep>'', 105)]) tj =
      Inl (PyException
        ''Expected the 2 added token ID(s) to be sequential in the range 100 - 101; got [100, 105]'')"
    using msg by (simp add: BpeVocab_init_def load_added_tokens_def)
  show ?thesis
    using gap BpeVocab_init_fails [of vocab fa tj] BpeVocab_init_succeeds [of vocab fa tj]
    by (simp add: sequential_message_def)
qed

theorem added_ids_must_be_contiguous_witness:
  "BpeVocab_init (map (\<lambda>i. (str_nat i, int i)) [0..<100])
     (Some [(''<pad>'', 100), (''<sep>'', 105)]) None =
     Inl (PyException
        ''Expected the 2 added token ID(s) to be sequential in the range 100 - 101; got [100, 105]'') \<and>
   BpeVocab_init [(''a'', 0)] (Some [(''x'', 3)]) None =
     Inl (PyException
        ''Expected the 1 added token ID(s) to be sequential in the range 1 - 1; got [3]'') \<and>
   (\<exists>v. BpeVocab_init [(''a'', 0)] (Some [(''y'', 2), (''x'', 1)]) None = Inr v)"
proof -
  have len: "length (map (\<lambda>i. (str_nat i, int i)) [0..<100]) = 100"
    by simp
  have a: "BpeVocab_init (map (\<lambda>i. (str_nat i, int i)) [0..<100])
     (Some [(''<pad>'', 100), (''<sep>'', 105)]) None =
     Inl (PyException
        ''Expected the 2 added token ID(s) to be sequential in the range 100 - 101; got [100, 105]'')"
    using added_ids_must_be_contiguous [of "map (\<lambda>i. (str_nat i, int i)) [0..<100]"
      "Some [(''<pad>'', 100), (''<sep>'', 105)]" None] len by blast
  have bad: "sort (map snd (load_added_tokens [(''a'', 0)] (Some [(''x'', 3)]) None)) \<noteq>
      map int [length [(''a'', 0::int)] ..<
        length [(''a'', 0::int)] + length (load_added_tokens [(''a'', 0)] (Some [(''x'', 3)]) None)]"
    by (simp add: load_added_tokens_def)
  have lit: "''Expected the '' @ str_nat 1 @
      '' added token ID(s) to be sequential in the range '' @ str_nat 1 @
      '' - '' @ str_int 1 @ ''; got '' @ str_int_list [3] =
      ''Expected the 1 added token ID(s) to be sequential in the range 1 - 1; got [3]''"
    by code_simp
  have b: "BpeVocab_init [(''a'', 0)] (Some [(''x'', 3)]) None =
     Inl (PyException
        ''Expected the 1 added token ID(s) to be sequential in the range 1 - 1; got [3]'')"
    using added_ids_must_be_contiguous [of "[(''a'', 0)]" "Some [(''x'', 3)]" None] bad lit
    by (simp add: load_added_tokens_def)
  have good: "sort (map snd (load_added_tokens [(''a'', 0)] (Some [(''y'', 2), (''x'', 1)]) None)) =
      map int [length [(''a'', 0::int)] ..<
        length [(''a'', 0::int)] +
        length (load_added_tokens [(''a'', 0)] (Some [(''y'', 2), (''x'', 1)]) None)]"
    by (simp add: load_added_tokens_def)
  have c: "\<exists>v. BpeVocab_init [(''a'', 0)] (Some [(''y'', 2), (''x'', 1)]) None = Inr v"
    using added_ids_must_be_contiguous [of "[(''a'', 0)]" "Some [(''y'', 2), (''x'', 1)]" None] good
    by blast
  from a b c show ?thesis by blast
qed

lemma map_of_filter_key:
  "map_of (filter (\<lambda>(k, v). P k) xs) k = (if P k then map_of xs k else None)"
  by (induction xs) auto

text \<open>
  Claim C6. With an added-tokens file the dictionary read from it is used unchanged,
  entries whose text is a key of the base vocabulary included. Without one, the
  \<open>added_tokens\<close> list of \<open>tokenizer.json\<close> is used: an item whose content is a key of the
  base vocabulary is left out, and a content listed more than once keeps its last id.
  With neither a file nor a list (or no \<open>tokenizer.json\<close>) there are no added tokens.
\<close>

theorem added_token_sources:
  "load_added_tokens vocab (Some added) tj = added \<and>
   ((text, idx) \<in> set added \<and> dict_contains text vocab \<longrightarrow>
      (text, idx) \<in> set (load_added_tokens vocab (Some added) tj)) \<and>
   load_added_tokens vocab None (Some (Some items)) =
     py_dict (filter (\<lambda>(content, idx). \<not> dict_contains content vocab) items) \<and>
   map_of (load_added_tokens vocab None (Some (Some items))) text =
     (if dict_contains text vocab then None else map_of (rev items) text) \<and>
   distinct (map fst (load_added_tokens vocab None (Some (Some items)))) \<and>
   set (map fst (load_added_tokens vocab None (Some (Some items)))) =
     {c \<in> set (map fst items). \<not> dict_contains c vocab} \<and>
   load_added_tokens vocab None None = [] \<and>
   load_added_tokens vocab None (Some None) = []"
proof -
  let ?kept = "filter (\<lambda>(content, idx). \<not> dict_contains content vocab) items"
  have m: "map_of (py_dict ?kept) text =
      (if dict_contains text vocab then None else map_of (rev items) text)"
    using map_of_filter_key [of "\<lambda>c. \<not> dict_contains c vocab" "rev items" "text"]
    by (simp add: map_of_py_dict rev_filter)
  have k: "set (map fst ?kept) = {c \<in> set (map fst items). \<not> dict_contains c vocab}"
    by force
  show ?thesis
    using m k keys_py_dict [of ?kept]
    by (simp add: load_added_tokens_def py_dict_def)
qed

theorem added_token_sources_witness:
  "load_added_tokens [(''a'', 0), (''b'', 1)] (Some [(''b'', 2), (''<pad>'', 3)]) None =
     [(''b'', 2), (''<pad>'', 3)] \<and>
   (''b'', 2) \<in> set (load_added_tokens [(''a'', 0), (''b'', 1)] (Some [(''b'', 2), (''<pad>'', 3)]) None) \<and>
   load_added_tokens [(''a'', 0), (''b'', 1)] None (Some (Some [(''b'', 2), (''<pad>'', 2)])) =
     [(''<pad>'', 2)] \<and>
   map_of (load_added_tokens [(''a'', 0), (''b'', 1)] None (Some (Some [(''b'', 2), (''<pad>'', 2)])))
     ''b'' = None \<and>
   load_added_tokens [(''a'', 0), (''b'', 1)] None None = []"
  using added_token_sources [of "[(''a'', 0), (''b'', 1)]" "[(''b'', 2), (''<pad>'', 3)]" None
      "''b''" 2 "[(''b'', 2), (''<pad>'', 2)]"]
  by (simp add: dict_contains_def py_dict_def)


text \<open>
  Claim C5. A vocabulary that was built has \<open>vocab_size_base + k\<close> tokens, \<open>k\<close> the number
  of added tokens, and its texts, scores and types are handed to the writer as the three
  projections of one list. The token at an index \<open>i\<close> below \<open>vocab_size_base\<close> is the
  \<open>i\<close>-th key of the base vocabulary with score 0 and the type \<open>bpe_toktype\<close> gives it:
  UNKNOWN, CONTROL or BYTE only for an index of at most 258 and a text that starts with
  \<open><\<close> and ends with \<open>>\<close>, NORMAL otherwise. The token at index \<open>vocab_size_base + j\<close> is
  the added token with id \<open>vocab_size_base + j\<close>, with score -1000 and type USER_DEFINED.
\<close>

theorem built_vocabulary_layout:
  "(BpeVocab_init vocab fa tj = Inr v \<longrightarrow>
      vocab_size_base v = length vocab \<and>
      length (all_tokens v) = vocab_size_base v + length (load_added_tokens vocab fa tj) \<and>
      vocab_size v = length (all_tokens v) \<and>
      emit_vocabulary v =
        [AddTokenList (map fst (all_tokens v)), AddTokenScores (map (fst \<circ> snd) (all_tokens v)),
         AddTokenTypes (map (snd \<circ> snd) (all_tokens v))] \<and>
      (\<forall>i < length vocab.
         all_tokens v ! i = (fst (vocab ! i), 0, bpe_toktype i (fst (vocab ! i)))) \<and>
      (\<forall>j < length (load_added_tokens vocab fa tj).
         \<exists>text. (text, int (length vocab + j)) \<in> set (load_added_tokens vocab fa tj) \<and>
           all_tokens v ! (length vocab + j) = (text, - 1000, USER_DEFINED))) \<and>
   (bpe_toktype i text \<noteq> NORMAL \<longrightarrow>
      i \<le> 258 \<and> startswith text ''<'' \<and> endswith text ''>'') \<and>
   (bpe_toktype i text = NORMAL \<or> bpe_toktype i text = UNKNOWN \<or>
    bpe_toktype i text = CONTROL \<or> bpe_toktype i text = BYTE) \<and>
   (bpe_toktype i text = UNKNOWN \<longleftrightarrow> i = 0 \<and> text = ''<unk>'') \<and>
   (bpe_toktype i text = CONTROL \<longleftrightarrow>
      (i = 1 \<or> i = 2) \<and> startswith text ''<'' \<and> endswith text ''>'') \<and>
   (bpe_toktype i text = BYTE \<longleftrightarrow>
      3 \<le> i \<and> i \<le> 258 \<and> startswith text ''<0x'' \<and> endswith text ''>'')"
proof -
  let ?added = "load_added_tokens vocab fa tj"
  have layout: "vocab_size_base v = length vocab \<and>
      length (all_tokens v) = vocab_size_base v + length ?added \<and>
      vocab_size v = length (all_tokens v) \<and>
      (\<forall>i < length vocab.
         all_tokens v ! i = (fst (vocab ! i), 0, bpe_toktype i (fst (vocab ! i)))) \<and>
      (\<forall>j < length ?added.
         \<exists>text. (text, int (length vocab + j)) \<in> set ?added \<and>
           all_tokens v ! (length vocab + j) = (text, - 1000, USER_DEFINED))"
    if init: "BpeVocab_init vocab fa tj = Inr v"
  proof -
    note ids = BpeVocab_init_Inr(1) [OF init]
    note v = BpeVocab_init_Inr(2) [OF init]
    have base: "bpe_tokenizer v = vocab" and added: "added_tokens_list v = map fst (sort_key snd ?added)"
      and sizes: "vocab_size_base v = length vocab" "vocab_size v = length vocab + length ?added"
      by (simp_all add: v)
    have "\<exists>text. (text, int (length vocab + j)) \<in> set ?added \<and>
           all_tokens v ! (length vocab + j) = (text, - 1000, USER_DEFINED)"
      if j: "j < length ?added" for j
    proof -
      from sorted_added_nth [OF ids j]
      have "(fst (sort_key snd ?added ! j), int (length vocab + j)) \<in> set ?added"
        by (metis prod.collapse)
      moreover have "all_tokens v ! (length vocab + j) =
          (fst (sort_key snd ?added ! j), - 1000, USER_DEFINED)"
        using nth_all_tokens_added [of j v] j by (simp add: base added)
      ultimately show ?thesis by blast
    qed
    moreover have "all_tokens v ! i = (fst (vocab ! i), 0, bpe_toktype i (fst (vocab ! i)))"
      if "i < length vocab" for i
      using nth_all_tokens_base [of i v] that by (simp add: base)
    ultimately show ?thesis
      by (simp add: sizes length_all_tokens base added)
  qed
  have types: "bpe_toktype i text = NORMAL \<or> bpe_toktype i text = UNKNOWN \<or>
    bpe_toktype i text = CONTROL \<or> bpe_toktype i text = BYTE"
    using bpe_toktype_cases [of i "text"] by (cases "bpe_toktype i text") simp_all
  have eligible: "bpe_toktype i text \<noteq> NORMAL \<longrightarrow>
      i \<le> 258 \<and> startswith text ''<'' \<and> endswith text ''>''"
    by (simp add: bpe_toktype_def)
  show ?thesis
    using layout types eligible bpe_toktype_cases [of i "text"]
    by (simp add: emit_vocabulary_def Let_def)
qed


theorem built_vocabulary_layout_witness:
  "BpeVocab_init [(''<unk>'', 0), (''<s>'', 1), (''</s>'', 2), (''<0x00>'', 3), (''a'', 4)]
     (Some [(''<sep>'', 6), (''<pad>'', 5)]) None =
     Inr \<lparr>bpe_tokenizer = [(''<unk>'', 0), (''<s>'', 1), (''</s>'', 2), (''<0x00>'', 3), (''a'', 4)],
          added_tokens_list = [''<pad>'', ''<sep>''], vocab_size_base = 5, vocab_size = 7\<rparr> \<and>
   all_tokens \<lparr>bpe_tokenizer = [(''<unk>'', 0), (''<s>'', 1), (''</s>'', 2), (''<0x00>'', 3), (''a'', 4)],
          added_tokens_list = [''<pad>'', ''<sep>''], vocab_size_base = 5, vocab_size = 7\<rparr> =
     [(''<unk>'', 0, UNKNOWN), (''<s>'', 0, CONTROL), (''</s>'', 0, CONTROL), (''<0x00>'', 0, BYTE),
      (''a'', 0, NORMAL), (''<pad>'', - 1000, USER_DEFINED), (''<sep>'', - 1000, USER_DEFINED)] \<and>
   length (all_tokens \<lparr>bpe_tokenizer = [(''<unk>'', 0), (''<s>'', 1), (''</s>'', 2), (''<0x00>'', 3),
            (''a'', 4)],
          added_tokens_list = [''<pad>'', ''<sep>''], vocab_size_base = 5, vocab_size = 7\<rparr>) = 7 \<and>
   bpe_toktype 259 ''<0xFF>'' = NORMAL"
proof -
  have init: "BpeVocab_init [(''<unk>'', 0), (''<s>'', 1), (''</s>'', 2), (''<0x00>'', 3), (''a'', 4)]
     (Some [(''<sep>'', 6), (''<pad>'', 5)]) None =
     Inr \<lparr>bpe_tokenizer = [(''<unk>'', 0), (''<s>'', 1), (''</s>'', 2), (''<0x00>'', 3), (''a'', 4)],
          added_tokens_list = [''<pad>'', ''<sep>''], vocab_size_base = 5, vocab_size = 7\<rparr>"
    by (simp add: BpeVocab_init_def load_added_tokens_def)
  have toks: "all_tokens \<lparr>bpe_tokenizer = [(''<unk>'', 0), (''<s>'', 1), (''</s>'', 2),
            (''<0x00>'', 3), (''a'', 4)],
          added_tokens_list = [''<pad>'', ''<sep>''], vocab_size_base = 5, vocab_size = 7\<rparr> =
     [(''<unk>'', 0, UNKNOWN), (''<s>'', 0, CONTROL), (''</s>'', 0, CONTROL), (''<0x00>'', 0, BYTE),
      (''a'', 0, NORMAL), (''<pad>'', - 1000, USER_DEFINED), (''<sep>'', - 1000, USER_DEFINED)]"
    by (simp add: all_tokens_def bpe_tokens_def added_tokens_def enumerate_eq_zip bpe_toktype_def
        startswith_def endswith_def upt_rec)
  show ?thesis
    using built_vocabulary_layout [of "[(''<unk>'', 0), (''<s>'', 1), (''</s>'', 2), (''<0x00>'', 3),
        (''a'', 4)]" "Some [(''<sep>'', 6), (''<pad>'', 5)]" None
        "\<lparr>bpe_tokenizer = [(''<unk>'', 0), (''<s>'', 1), (''</s>'', 2), (''<0x00>'', 3), (''a'', 4)],
          added_tokens_list = [''<pad>'', ''<sep>''], vocab_size_base = 5, vocab_size = 7\<rparr>"
        259 "''<0xFF>''"] init toks
    by (simp add: load_added_tokens_def)
qed

text \<open>
  Claim C2, as amended. In a vocabulary that was built, the token at a position \<open>i\<close> below
  \<open>vocab_size_base\<close> is the \<open>i\<close>-th key of the base vocabulary in the order \<open>tokenizer.json\<close>
  lists it; it has id \<open>i\<close> when the base vocabulary lists under every position the id
  equal to that position. The token at a position \<open>i\<close> from \<open>vocab_size_base\<close> on is the
  added token with id \<open>i\<close>, whatever the order of the added tokens in their source.
\<close>

theorem vocabulary_positions:
  "BpeVocab_init vocab fa tj = Inr v \<longrightarrow>
     (\<forall>i < length vocab. fst (all_tokens v ! i) = fst (vocab ! i)) \<and>
     ((\<forall>i < length vocab. snd (vocab ! i) = int i) \<longrightarrow>
        (\<forall>i < length vocab. (fst (all_tokens v ! i), int i) \<in> set vocab)) \<and>
     (\<forall>i. length vocab \<le> i \<and> i < length (all_tokens v) \<longrightarrow>
        (fst (all_tokens v ! i), int i) \<in> set (load_added_tokens vocab fa tj))"
proof
  assume init: "BpeVocab_init vocab fa tj = Inr v"
  let ?added = "load_added_tokens vocab fa tj"
  note ids = BpeVocab_init_Inr(1) [OF init]
  note v = BpeVocab_init_Inr(2) [OF init]
  have base: "bpe_tokenizer v = vocab" and added: "added_tokens_list v = map fst (sort_key snd ?added)"
    by (simp_all add: v)
  have 1: "fst (all_tokens v ! i) = fst (vocab ! i)" if "i < length vocab" for i
    using nth_all_tokens_base [of i v] that by (simp add: base)
  have 2: "(fst (all_tokens v ! i), int i) \<in> set vocab"
    if ordered: "\<forall>i < length vocab. snd (vocab ! i) = int i" and i: "i < length vocab" for i
  proof -
    have "vocab ! i \<in> set vocab" using i by simp
    moreover have "vocab ! i = (fst (all_tokens v ! i), int i)"
      using 1 [OF i] ordered i by (metis prod.collapse)
    ultimately show ?thesis by simp
  qed
  have 3: "(fst (all_tokens v ! i), int i) \<in> set ?added"
    if "length vocab \<le> i \<and> i < length (all_tokens v)" for i
  proof -
    from that obtain j where j: "i = length vocab + j" "j < length ?added"
      by (auto simp: length_all_tokens base added le_iff_add)
    from sorted_added_nth [OF ids j(2)]
    have "(fst (sort_key snd ?added ! j), int (length vocab + j)) \<in> set ?added"
      by (metis prod.collapse)
    moreover have "all_tokens v ! (length vocab + j) =
        (fst (sort_key snd ?added ! j), - 1000, USER_DEFINED)"
      using nth_all_tokens_added [of j v] j(2) by (simp add: base added)
    ultimately show ?thesis by (simp add: j(1))
  qed
  from 1 2 3 show "(\<forall>i < length vocab. fst (all_tokens v ! i) = fst (vocab ! i)) \<and>
     ((\<forall>i < length vocab. snd (vocab ! i) = int i) \<longrightarrow>
        (\<forall>i < length vocab. (fst (all_tokens v ! i), int i) \<in> set vocab)) \<and>
     (\<forall>i. length vocab \<le> i \<and> i < length (all_tokens v) \<longrightarrow>
        (fst (all_tokens v ! i), int i) \<in> set (load_added_tokens vocab fa tj))"
    by blast
qed

theorem vocabulary_positions_witness:
  "map fst (all_tokens \<lparr>bpe_tokenizer = [(''a'', 0), (''b'', 1)],
       added_tokens_list = [''<pad>'', ''<sep>''], vocab_size_base = 2, vocab_size = 4\<rparr>) =
     [''a'', ''b'', ''<pad>'', ''<sep>''] \<and>
   (fst (all_tokens \<lparr>bpe_tokenizer = [(''a'', 0), (''b'', 1)],
       added_tokens_list = [''<pad>'', ''<sep>''], vocab_size_base = 2, vocab_size = 4\<rparr> ! 1), int 1)
     \<in> set [(''a'', 0), (''b'', 1)] \<and>
   (fst (all_tokens \<lparr>bpe_tokenizer = [(''a'', 0), (''b'', 1)],
       added_tokens_list = [''<pad>'', ''<sep>''], vocab_size_base = 2, vocab_size = 4\<rparr> ! 3), int 3)
     \<in> set (load_added_tokens [(''a'', 0), (''b'', 1)] (Some [(''<sep>'', 3), (''<pad>'', 2)]) None)"
proof -
  have init: "BpeVocab_init [(''a'', 0), (''b'', 1)] (Some [(''<sep>'', 3), (''<pad>'', 2)]) None =
     Inr \<lparr>bpe_tokenizer = [(''a'', 0), (''b'', 1)],
       added_tokens_list = [''<pad>'', ''<sep>''], vocab_size_base = 2, vocab_size = 4\<rparr>"
    by (simp add: BpeVocab_init_def load_added_tokens_def)
  have ordered: "\<forall>i < length [(''a'', 0::int), (''b'', 1)]. snd ([(''a'', 0::int), (''b'', 1)] ! i) = int i"
    by (simp add: less_Suc_eq)
  have toks: "map fst (all_tokens \<lparr>bpe_tokenizer = [(''a'', 0), (''b'', 1)],
       added_tokens_list = [''<pad>'', ''<sep>''], vocab_size_base = 2, vocab_size = 4\<rparr>) =
     [''a'', ''b'', ''<pad>'', ''<sep>'']"
    by (simp add: all_tokens_def bpe_tokens_def added_tokens_def enumerate_eq_zip upt_rec)
  have len: "length (all_tokens \<lparr>bpe_tokenizer = [(''a'', 0), (''b'', 1)],
       added_tokens_list = [''<pad>'', ''<sep>''], vocab_size_base = 2, vocab_size = 4\<rparr>) = 4"
    by (simp add: length_all_tokens)
  from vocabulary_positions [of "[(''a'', 0), (''b'', 1)]" "Some [(''<sep>'', 3), (''<pad>'', 2)]" None
      "\<lparr>bpe_tokenizer = [(''a'', 0), (''b'', 1)],
       added_tokens_list = [''<pad>'', ''<sep>''], vocab_size_base = 2, vocab_size = 4\<rparr>"] init
  have all: "(\<forall>i < length [(''a'', 0::int), (''b'', 1)].
        (fst (all_tokens \<lparr>bpe_tokenizer = [(''a'', 0), (''b'', 1)],
           added_tokens_list = [''<pad>'', ''<sep>''], vocab_size_base = 2, vocab_size = 4\<rparr> ! i),
         int i) \<in> set [(''a'', 0), (''b'', 1)])"
    and rest: "\<forall>i. length [(''a'', 0::int), (''b'', 1)] \<le> i \<and>
        i < length (all_tokens \<lparr>bpe_tokenizer = [(''a'', 0), (''b'', 1)],
           added_tokens_list = [''<pad>'', ''<sep>''], vocab_size_base = 2, vocab_size = 4\<rparr>) \<longrightarrow>
        (fst (all_tokens \<lparr>bpe_tokenizer = [(''a'', 0), (''b'', 1)],
           added_tokens_list = [''<pad>'', ''<sep>''], vocab_size_base = 2, vocab_size = 4\<rparr> ! i),
         int i) \<in> set (load_added_tokens [(''a'', 0), (''b'', 1)]
            (Some [(''<sep>'', 3), (''<pad>'', 2)]) None)"
    using ordered by blast+
  from all [rule_format, of 1] have a: "(fst (all_tokens \<lparr>bpe_tokenizer = [(''a'', 0), (''b'', 1)],
       added_tokens_list = [''<pad>'', ''<sep>''], vocab_size_base = 2, vocab_size = 4\<rparr> ! 1), int 1)
     \<in> set [(''a'', 0), (''b'', 1)]"
    by simp
  from rest [rule_format, of 3] len
  have b: "(fst (all_tokens \<lparr>bpe_tokenizer = [(''a'', 0), (''b'', 1)],
       added_tokens_list = [''<pad>'', ''<sep>''], vocab_size_base = 2, vocab_size = 4\<rparr> ! 3), int 3)
     \<in> set (load_added_tokens [(''a'', 0), (''b'', 1)] (Some [(''<sep>'', 3), (''<pad>'', 2)]) None)"
    by simp
  from toks a b show ?thesis by blast
qed

text \<open>
  The claim as first stated fails for a base vocabulary that is not listed by id: with
  \<open>{"a": 0, "b": 2}\<close> the vocabulary is built, and position 1 holds \<open>b\<close>, whose id is 2.
\<close>

theorem base_position_is_not_id:
  "BpeVocab_init [(''a'', 0), (''b'', 2)] None None =
     Inr \<lparr>bpe_tokenizer = [(''a'', 0), (''b'', 2)], added_tokens_list = [],
          vocab_size_base = 2, vocab_size = 2\<rparr> \<and>
   fst (all_tokens \<lparr>bpe_tokenizer = [(''a'', 0), (''b'', 2)], added_tokens_list = [],
          vocab_size_base = 2, vocab_size = 2\<rparr> ! 1) = ''b'' \<and>
   map_of [(''a'', 0), (''b'', 2::int)] ''b'' = Some 2 \<and>
   (''b'', 1) \<notin> set [(''a'', 0), (''b'', 2::int)]"
  by (simp add: BpeVocab_init_def load_added_tokens_def all_tokens_def bpe_tokens_def
      added_tokens_def enumerate_eq_zip upt_rec)

end
